theory Spec2Isabelle
  imports Complex_Main
begin

section \<open>Data model of \<open>BinanceMultiMonitor\<close>\<close>

text \<open>
  The monitor object of \<^verbatim>\<open>binance_monitor.py\<close> is a record of its attributes.
  Readings of the clock (\<^verbatim>\<open>time.time()\<close>) are real numbers. Prices, quantities and
  notionals are Python floats, the type \<open>double\<close> of the section on binary floating
  point below: parsing, multiplying and dividing round to the nearest double.

  The Python set \<^verbatim>\<open>subscribed_users\<close> is the list of its members in the order in
  which iterating the set yields them; the list never holds an id twice.

  The content of \<^verbatim>\<open>subscribers.json\<close> is what \<^verbatim>\<open>json.load\<close> makes of it.

  The last five fields of the record are not attributes of the object but what it does
  to the world around it: the file, whether the file can be written, and the record of the
  calls of \<^verbatim>\<open>save_subscribers\<close>, of the \<^verbatim>\<open>sendMessage\<close> requests and of the
  calls of \<^verbatim>\<open>send_telegram_notification\<close>. No operation reads the three records.
\<close>

record subscribers_json =
  js_subscribers :: "int list option"  \<comment> \<open>\<^verbatim>\<open>data.get('subscribers')\<close>; \<open>None\<close>: no such key\<close>
  js_last_updated :: real              \<comment> \<open>the instant whose ISO rendering is stored\<close>
  js_total_count :: int

datatype file_content =
    Missing                  \<comment> \<open>\<^verbatim>\<open>os.path.exists\<close> is false\<close>
  | Unreadable               \<comment> \<open>opening, parsing or reading the object raises\<close>
  | Json subscribers_json

text \<open>
  The dictionary \<^verbatim>\<open>NOTIFICATION_SETTINGS\<close> is read with \<^verbatim>\<open>get\<close> and a default:
  each entry may be absent. (Its entries \<^verbatim>\<open>include_link\<close> and \<^verbatim>\<open>emoji_enabled\<close>
  are read nowhere.)
\<close>

record settings =
  enable_spot :: "bool option"
  enable_futures :: "bool option"
  max_notifications_per_minute :: "int option"

record monitor =
  min_amount :: real
  subscribed_users :: "int list"
  trading_pairs :: "string list"
  asset_emojis :: "(string \<times> string) list"
  notification_settings :: settings
  total_trades :: nat
  spot_trades :: "string \<Rightarrow> nat"
  futures_trades :: "string \<Rightarrow> nat"
  notifications_sent :: nat
  notification_timestamps :: "real list"
  subscribers_file :: file_content
  disk_writable :: bool          \<comment> \<open>whether opening the file for writing succeeds\<close>
  save_calls :: nat              \<comment> \<open>how often \<^verbatim>\<open>save_subscribers\<close> has been called\<close>
  posts :: "(int \<times> string) list"  \<comment> \<open>the \<^verbatim>\<open>sendMessage\<close> requests issued, oldest first\<close>
  broadcasts :: "string list"    \<comment> \<open>the texts \<^verbatim>\<open>send_telegram_notification\<close> was called with\<close>

section \<open>Rate limiter\<close>

definition max_per_minute :: "monitor \<Rightarrow> int" where
  "max_per_minute m =
     (case max_notifications_per_minute (notification_settings m) of
        None \<Rightarrow> 10
      | Some k \<Rightarrow> k)"

text \<open>\<^verbatim>\<open>can_send_notification\<close>: \<open>now\<close> is the value of \<^verbatim>\<open>time.time()\<close> it reads.\<close>

definition can_send_notification :: "real \<Rightarrow> monitor \<Rightarrow> bool \<times> monitor" where
  "can_send_notification now m =
     (let m' = m\<lparr>notification_timestamps :=
                   filter (\<lambda>ts. now - ts < 60) (notification_timestamps m)\<rparr>
      in (int (length (notification_timestamps m')) < max_per_minute m', m'))"

section \<open>Recipient registry\<close>

text \<open>
  \<^verbatim>\<open>load_subscribers\<close>: every exception is caught and leaves the set as it was;
  \<^verbatim>\<open>set(data.get('subscribers', []))\<close> drops repeated ids. The key
  \<^verbatim>\<open>total_count\<close> is never read.
\<close>

definition load_subscribers :: "monitor \<Rightarrow> monitor" where
  "load_subscribers m =
     (case subscribers_file m of
        Missing \<Rightarrow> m
      | Unreadable \<Rightarrow> m
      | Json d \<Rightarrow>
          m\<lparr>subscribed_users :=
              remdups (case js_subscribers d of None \<Rightarrow> [] | Some ids \<Rightarrow> ids)\<rparr>)"

text \<open>
  \<^verbatim>\<open>save_subscribers\<close>: \<open>now\<close> is \<^verbatim>\<open>datetime.now()\<close>. When the file cannot
  be opened the exception is caught and the file keeps its content.
\<close>

definition save_subscribers :: "real \<Rightarrow> monitor \<Rightarrow> monitor" where
  "save_subscribers now m =
     (let m' = m\<lparr>save_calls := save_calls m + 1\<rparr>
      in if disk_writable m'
         then m'\<lparr>subscribers_file := Json
                  \<lparr>js_subscribers = Some (subscribed_users m'),
                   js_last_updated = now,
                   js_total_count = int (length (subscribed_users m'))\<rparr>\<rparr>
         else m')"

definition add_subscriber :: "real \<Rightarrow> int \<Rightarrow> monitor \<Rightarrow> monitor" where
  "add_subscriber now user_id m =
     (if user_id \<notin> set (subscribed_users m)
      then save_subscribers now (m\<lparr>subscribed_users := subscribed_users m @ [user_id]\<rparr>)
      else m)"

text \<open>
  \<^verbatim>\<open>get_subscribed_users\<close>, the inbox poll. The reply to \<^verbatim>\<open>getUpdates\<close> is an
  input: no reply at all (the request or the decoding of its body raises), or the status
  code with the \<^verbatim>\<open>ok\<close> flag and the updates of the body. An update without a
  \<^verbatim>\<open>message\<close> key is skipped; one whose message has no sender id raises, which ends
  the loop before the file is saved.
\<close>

datatype update = NoMessage | MessageFrom int | BrokenMessage

datatype poll_reply = NoReply | Reply nat bool "update list"

fun merge_updates :: "update list \<Rightarrow> int list \<times> nat \<Rightarrow> (int list \<times> nat) \<times> bool" where
  "merge_updates [] (users, new_users) = ((users, new_users), True)"
| "merge_updates (NoMessage # us) (users, new_users) = merge_updates us (users, new_users)"
| "merge_updates (BrokenMessage # us) (users, new_users) = ((users, new_users), False)"
| "merge_updates (MessageFrom user_id # us) (users, new_users) =
     (if user_id \<notin> set users
      then merge_updates us (users @ [user_id], new_users + 1)
      else merge_updates us (users, new_users))"

definition get_subscribed_users :: "real \<Rightarrow> poll_reply \<Rightarrow> monitor \<Rightarrow> monitor" where
  "get_subscribed_users now reply m =
     (case reply of
        NoReply \<Rightarrow> m
      | Reply status ok result \<Rightarrow>
          if status = 200 \<and> ok
          then (case merge_updates result (subscribed_users m, 0) of
                  ((users, new_users), finished) \<Rightarrow>
                    let m' = m\<lparr>subscribed_users := users\<rparr>
                    in if finished \<and> 0 < new_users then save_subscribers now m' else m')
          else m)"

section \<open>Configuration\<close>

text \<open>
  The module \<^verbatim>\<open>config.py\<close> as a record of its names (the token and the logging
  names apart), and the values the repository ships. String literals that are not ASCII
  are given as their UTF-8 bytes.
\<close>

record config =
  MIN_AMOUNT :: real
  RECONNECT_DELAY :: real
  STATS_INTERVAL :: real
  TRADING_PAIRS :: "string list"
  NOTIFICATION_SETTINGS :: settings
  ASSET_EMOJIS :: "(string \<times> string) list"

definition config_py :: config where
  "config_py =
     \<lparr>MIN_AMOUNT = 1000000,
      RECONNECT_DELAY = 5,
      STATS_INTERVAL = 60,
      TRADING_PAIRS =
        [''bchusdt'', ''btcusdt'', ''ethusdt'', ''bnbusdt'', ''dydxusdt'', ''solusdt'',
         ''suiusdt'', ''dogeusdt'', ''xrpusdt'', ''dotusdt'', ''tiausdt'', ''xtzusdt'',
         ''notusdt'', ''cfxusdt'', ''nearusdt'', ''epicusdt'', ''funusdt''],
      NOTIFICATION_SETTINGS =
        \<lparr>enable_spot = Some True, enable_futures = Some True,
         max_notifications_per_minute = Some 10\<rparr>,
      ASSET_EMOJIS =
     [(''BCH'', [CHR 0xF0, CHR 0x9F, CHR 0xAA, CHR 0x99]),
         (''BTC'', [CHR 0xE2, CHR 0x82, CHR 0xBF]),
         (''ETH'', [CHR 0xCE, CHR 0x9E]),
         (''BNB'', [CHR 0xF0, CHR 0x9F, CHR 0x9F, CHR 0xA1]),
         (''DYDX'', [CHR 0xF0, CHR 0x9F, CHR 0x93, CHR 0x8A]),
         (''SOL'', [CHR 0xE2, CHR 0x98, CHR 0x80, CHR 0xEF, CHR 0xB8, CHR 0x8F]),
         (''SUI'', [CHR 0xF0, CHR 0x9F, CHR 0x92, CHR 0x8E]),
         (''DOGE'', [CHR 0xF0, CHR 0x9F, CHR 0x90, CHR 0x95]),
         (''XRP'', [CHR 0xF0, CHR 0x9F, CHR 0x92, CHR 0x8E]),
         (''DOT'', [CHR 0xF0, CHR 0x9F, CHR 0x94, CHR 0x97]),
         (''TIA'', [CHR 0xF0, CHR 0x9F, CHR 0x8C, CHR 0x9F]),
         (''XTZ'', [CHR 0xF0, CHR 0x9F, CHR 0x8C, CHR 0xBF]),
         (''NOT'', [CHR 0xF0, CHR 0x9F, CHR 0x93, CHR 0x9D]),
         (''CFX'', [CHR 0xF0, CHR 0x9F, CHR 0x8C, CHR 0x8A]),
         (''NEAR'', [CHR 0xF0, CHR 0x9F, CHR 0x8C, CHR 0x90]),
         (''EPIC'', [CHR 0xF0, CHR 0x9F, CHR 0x8E, CHR 0xAE]),
         (''FUN'', [CHR 0xF0, CHR 0x9F, CHR 0x8E, CHR 0xAF])]\<rparr>"

text \<open>
  \<^verbatim>\<open>__init__\<close>, called by \<^verbatim>\<open>main\<close> with \<^verbatim>\<open>MIN_AMOUNT\<close>: it reads
  \<^verbatim>\<open>TRADING_PAIRS\<close>, \<^verbatim>\<open>ASSET_EMOJIS\<close> and \<^verbatim>\<open>NOTIFICATION_SETTINGS\<close> from
  the configuration and loads the saved subscribers. The file and whether it can be
  written are given from outside. (The token and the URL made from it only name the
  transport and are left out.)
\<close>

definition BinanceMultiMonitor :: "config \<Rightarrow> real \<Rightarrow> file_content \<Rightarrow> bool \<Rightarrow> monitor" where
  "BinanceMultiMonitor cfg amount file writable =
     load_subscribers
       \<lparr>min_amount = amount,
        subscribed_users = [],
        trading_pairs = TRADING_PAIRS cfg,
        asset_emojis = ASSET_EMOJIS cfg,
        notification_settings = NOTIFICATION_SETTINGS cfg,
        total_trades = 0,
        spot_trades = (\<lambda>symbol. 0),
        futures_trades = (\<lambda>symbol. 0),
        notifications_sent = 0,
        notification_timestamps = [],
        subscribers_file = file,
        disk_writable = writable,
        save_calls = 0,
        posts = [],
        broadcasts = []\<rparr>"

section \<open>Binary floating point\<close>

text \<open>
  A Python float is an IEEE 754 double: \<^verbatim>\<open>float(s)\<close>, \<^verbatim>\<open>x * y\<close> and \<^verbatim>\<open>x / y\<close> give
  the double nearest to the exact result, a tie going to the one with the even
  significand. \<open>ulp_of\<close> finds the spacing of the doubles around \<open>x\<close> by halving or
  doubling until the scaled number lies between \<open>2^52\<close> and \<open>2^53\<close> (2200 rounds cover
  every double), and no spacing is below \<open>2^-1074\<close>, that of the subnormal numbers.
  Infinities, NaN and the sign of zero are not in the model: a result of magnitude
  \<open>2^1024\<close> or more, which Python turns into \<^verbatim>\<open>inf\<close>, is outside it.

  The type \<open>double\<close> holds the real numbers that \<open>float_round\<close> yields;
  \<open>float_value\<close> is the exact value of a float, \<open>to_double\<close> the float nearest to
  a real number (\<^verbatim>\<open>float(s)\<close> for the decimal number \<open>s\<close> denotes, and the conversion
  of an \<^verbatim>\<open>int\<close> operand), \<open>fmul\<close> and \<open>fdiv\<close> are \<^verbatim>\<open>*\<close> and \<^verbatim>\<open>/\<close> on floats.
\<close>

definition round_half_even :: "real \<Rightarrow> int" where
  "round_half_even x =
     (let f = \<lfloor>x\<rfloor>; r = x - of_int f
      in if r < 1 / 2 then f
         else if 1 / 2 < r then f + 1
         else if even f then f else f + 1)"

fun ulp_of :: "nat \<Rightarrow> real \<Rightarrow> real \<Rightarrow> real" where
  "ulp_of 0 x u = u"
| "ulp_of (Suc k) x u =
     (if x < 2 ^ 52 then ulp_of k (2 * x) (u / 2)
      else if 2 ^ 53 \<le> x then ulp_of k (x / 2) (2 * u)
      else u)"

definition float_round :: "real \<Rightarrow> real" where
  "float_round x =
     (if x = 0 then 0
      else let u = max (1 / 2 ^ 1074) (ulp_of 2200 \<bar>x\<bar> 1)
           in of_int (round_half_even (x / u)) * u)"

typedef double = "range float_round"
  morphisms float_value Double
  by blast

definition to_double :: "real \<Rightarrow> double" where
  "to_double x = Double (float_round x)"

definition fmul :: "double \<Rightarrow> double \<Rightarrow> double" where
  "fmul x y = to_double (float_value x * float_value y)"

definition fdiv :: "double \<Rightarrow> double \<Rightarrow> double" where
  "fdiv x y = to_double (float_value x / float_value y)"

section \<open>Trade classifier\<close>

text \<open>
  String literals of the source that are not ASCII are given as their UTF-8 bytes.
\<close>

definition default_emoji :: string where
  "default_emoji = [CHR 0xF0, CHR 0x9F, CHR 0x92, CHR 0xB1]"

definition spot_emoji :: string where
  "spot_emoji = [CHR 0xF0, CHR 0x9F, CHR 0x92, CHR 0xB1]"

definition futures_emoji :: string where
  "futures_emoji = [CHR 0xF0, CHR 0x9F, CHR 0x93, CHR 0x88]"

text \<open>
  The direction labels (a green or red circle and the Russian for "purchase" or "sale")
  and the labels of the template's lines (an emoji and the Russian for "sum", "price",
  "volume", "time"; the link, labelled "open Binance").
\<close>

definition buy_label :: string where
  "buy_label =
     [CHR 0xF0, CHR 0x9F, CHR 0x9F, CHR 0xA2] @ '' ''
     @ [CHR 0xD0, CHR 0x9F, CHR 0xD0, CHR 0x9E, CHR 0xD0, CHR 0x9A, CHR 0xD0, CHR 0xA3,
        CHR 0xD0, CHR 0x9F, CHR 0xD0, CHR 0x9A, CHR 0xD0, CHR 0x90]"

definition sell_label :: string where
  "sell_label =
     [CHR 0xF0, CHR 0x9F, CHR 0x94, CHR 0xB4] @ '' ''
     @ [CHR 0xD0, CHR 0x9F, CHR 0xD0, CHR 0xA0, CHR 0xD0, CHR 0x9E, CHR 0xD0, CHR 0x94,
        CHR 0xD0, CHR 0x90, CHR 0xD0, CHR 0x96, CHR 0xD0, CHR 0x90]"

definition amount_label :: string where
  "amount_label =
     [CHR 0xF0, CHR 0x9F, CHR 0x92, CHR 0xB0] @ '' ''
     @ [CHR 0xD0, CHR 0xA1, CHR 0xD1, CHR 0x83, CHR 0xD0, CHR 0xBC, CHR 0xD0, CHR 0xBC,
        CHR 0xD0, CHR 0xB0]
     @ '': <b>''"

definition price_label :: string where
  "price_label =
     [CHR 0xF0, CHR 0x9F, CHR 0x92, CHR 0xB5] @ '' ''
     @ [CHR 0xD0, CHR 0xA6, CHR 0xD0, CHR 0xB5, CHR 0xD0, CHR 0xBD, CHR 0xD0, CHR 0xB0]
     @ '': <b>$''"

definition quantity_label :: string where
  "quantity_label =
     [CHR 0xF0, CHR 0x9F, CHR 0x93, CHR 0x8A] @ '' ''
     @ [CHR 0xD0, CHR 0x9E, CHR 0xD0, CHR 0xB1, CHR 0xD1, CHR 0x8A, CHR 0xD1, CHR 0x91,
        CHR 0xD0, CHR 0xBC]
     @ '': <b>''"

definition time_label :: string where
  "time_label =
     [CHR 0xE2, CHR 0x8F, CHR 0xB0] @ '' ''
     @ [CHR 0xD0, CHR 0x92, CHR 0xD1, CHR 0x80, CHR 0xD0, CHR 0xB5, CHR 0xD0, CHR 0xBC,
        CHR 0xD1, CHR 0x8F]
     @ '': <b>''"

definition link_open :: string where
  "link_open =
     [CHR 0xF0, CHR 0x9F, CHR 0x94, CHR 0x97] @ '' <a href='' @ [CHR 0x22]
     @ ''https://www.binance.com/ru/trade/''"

definition link_close :: string where
  "link_close =
     [CHR 0x22] @ ''>''
     @ [CHR 0xD0, CHR 0x9E, CHR 0xD1, CHR 0x82, CHR 0xD0, CHR 0xBA, CHR 0xD1, CHR 0x80,
        CHR 0xD1, CHR 0x8B, CHR 0xD1, CHR 0x82, CHR 0xD1, CHR 0x8C]
     @ '' Binance</a>''"

text \<open>\<^verbatim>\<open>str.upper\<close>, on the ASCII letters (the symbols of the feed are ASCII).\<close>

definition upper_char :: "char \<Rightarrow> char" where
  "upper_char c =
     (case map_of (zip ''abcdefghijklmnopqrstuvwxyz'' ''ABCDEFGHIJKLMNOPQRSTUVWXYZ'') c of
        None \<Rightarrow> c
      | Some u \<Rightarrow> u)"

definition upper :: "string \<Rightarrow> string" where
  "upper s = map upper_char s"

text \<open>The test \<^verbatim>\<open>asset in symbol.upper()\<close>: \<open>a\<close> occurs in \<open>s\<close> as a substring.\<close>

fun starts_with :: "string \<Rightarrow> string \<Rightarrow> bool" where
  "starts_with [] s = True"
| "starts_with (a # as) [] = False"
| "starts_with (a # as) (c # cs) = (a = c \<and> starts_with as cs)"

fun contains :: "string \<Rightarrow> string \<Rightarrow> bool" where
  "contains a [] = (a = [])"
| "contains a (c # cs) = (starts_with a (c # cs) \<or> contains a cs)"

fun first_asset :: "(string \<times> string) list \<Rightarrow> string \<Rightarrow> string" where
  "first_asset [] s = default_emoji"
| "first_asset ((asset, emoji) # rest) s =
     (if contains asset s then emoji else first_asset rest s)"

definition get_asset_emoji :: "monitor \<Rightarrow> string \<Rightarrow> string" where
  "get_asset_emoji m symbol = first_asset (asset_emojis m) (upper symbol)"

subsection \<open>Fixed-point formatting\<close>

text \<open>
  The format specifications \<^verbatim>\<open>.2f\<close>, \<^verbatim>\<open>.1f\<close>, \<^verbatim>\<open>,.0f\<close>, \<^verbatim>\<open>,.4f\<close> and
  \<^verbatim>\<open>.6f\<close>. What is formatted is a float: its exact value is rounded to \<open>d\<close> decimal
  places, a tie going to the even neighbour; a comma in the specification groups the
  integer digits in threes.
\<close>

definition digit_char :: "nat \<Rightarrow> char" where
  "digit_char d = ''0123456789'' ! (d mod 10)"

function digits :: "nat \<Rightarrow> string" where
  "digits n = (if n < 10 then [digit_char n] else digits (n div 10) @ [digit_char (n mod 10)])"
  by pat_completeness auto
termination
  by (relation "measure (\<lambda>n. n)") auto

declare digits.simps [simp del]

function group3 :: "string \<Rightarrow> string" where
  "group3 ds =
     (if length ds \<le> 3 then ds
      else group3 (take (length ds - 3) ds) @ '','' @ drop (length ds - 3) ds)"
  by pat_completeness auto
termination
  by (relation "measure length") auto

declare group3.simps [simp del]

definition zero_pad :: "nat \<Rightarrow> string \<Rightarrow> string" where
  "zero_pad d s = replicate (d - length s) (CHR ''0'') @ s"

definition format_fixed :: "bool \<Rightarrow> nat \<Rightarrow> double \<Rightarrow> string" where
  "format_fixed grouping d x =
     (let y = float_value x;
          n = nat (round_half_even (\<bar>y\<bar> * 10 ^ d));
          whole = digits (n div 10 ^ d)
      in (if y < 0 then ''-'' else [])
         @ (if grouping then group3 whole else whole)
         @ (if d = 0 then [] else ''.'' @ zero_pad d (digits (n mod 10 ^ d))))"

text \<open>The local variable \<^verbatim>\<open>amount_str\<close> of \<^verbatim>\<open>format_trade_message\<close>.\<close>

definition amount_str :: "double \<Rightarrow> string" where
  "amount_str amount =
     (if 1000000 \<le> float_value amount
      then ''$'' @ format_fixed False 2 (fdiv amount (to_double 1000000)) @ ''M''
      else if 1000 \<le> float_value amount
      then ''$'' @ format_fixed False 1 (fdiv amount (to_double 1000)) @ ''K''
      else ''$'' @ format_fixed True 0 amount)"

text \<open>
  The number a string of decimal digits denotes; it serves to say which number a
  formatted text shows.
\<close>

definition digit_value :: "char \<Rightarrow> nat" where
  "digit_value c =
     (case map_of (zip ''0123456789'' [0, 1, 2, 3, 4, 5, 6, 7, 8, 9]) c of
        None \<Rightarrow> 0
      | Some v \<Rightarrow> v)"

definition decimal :: "string \<Rightarrow> nat" where
  "decimal s = foldl (\<lambda>v c. 10 * v + digit_value c) 0 s"

subsection \<open>Trade messages\<close>

text \<open>
  A message of the feed, as \<^verbatim>\<open>json.loads\<close> and the accesses of the handler see it:
  text that is no JSON object at all, or an object whose entries \<^verbatim>\<open>p\<close>, \<^verbatim>\<open>q\<close> and
  \<^verbatim>\<open>T\<close> may be absent (\<^verbatim>\<open>KeyError\<close>) or hold something that is no number
  (\<^verbatim>\<open>ValueError\<close>, which here also stands for \<^verbatim>\<open>TypeError\<close>). The entry \<^verbatim>\<open>m\<close> is read
  with the default \<^verbatim>\<open>False\<close>. The entries \<^verbatim>\<open>p\<close> and \<^verbatim>\<open>q\<close> hold the decimal number
  their string denotes; \<^verbatim>\<open>float(trade_data['p'])\<close> is the double nearest to it.
\<close>

datatype 'a field = Absent | Invalid | Val 'a

record trade_json =
  tr_p :: "real field"
  tr_q :: "real field"
  tr_T :: "int field"
  tr_m :: "bool option"

datatype raw_message = Garbage | Object trade_json

datatype error = RuntimeError | KeyError | ValueError

fun get_field :: "'a field \<Rightarrow> error + 'a" where
  "get_field Absent = Inl KeyError"
| "get_field Invalid = Inl ValueError"
| "get_field (Val v) = Inr v"

fun get_float :: "real field \<Rightarrow> error + double" where
  "get_float Absent = Inl KeyError"
| "get_float Invalid = Inl ValueError"
| "get_float (Val v) = Inr (to_double v)"

text \<open>
  \<^verbatim>\<open>format_trade_message\<close>. The rendering of the event time in the local time zone,
  \<^verbatim>\<open>datetime.fromtimestamp(T / 1000).strftime('%Y-%m-%d %H:%M:%S')\<close>, is the parameter
  \<open>local_time\<close>, on the milliseconds; it is \<open>None\<close> where \<^verbatim>\<open>fromtimestamp\<close> raises.
  The template begins and ends with text that is no white space, so \<^verbatim>\<open>strip()\<close>
  removes exactly the line break before it and the line break and blanks after it.
\<close>

definition render_message ::
  "string \<Rightarrow> string \<Rightarrow> string \<Rightarrow> string \<Rightarrow> string \<Rightarrow> string \<Rightarrow> double \<Rightarrow> double \<Rightarrow> string
     \<Rightarrow> string" where
  "render_message market_emoji market_type symbol_upper asset_emoji trade_type amount_text
       price quantity timestamp =
     market_emoji @ '' <b>'' @ market_type @ '' '' @ symbol_upper @ ''</b> '' @ asset_emoji
       @ [CHR 0x0A, CHR 0x0A]
     @ trade_type @ [CHR 0x0A]
     @ amount_label @ amount_text @ ''</b>'' @ [CHR 0x0A]
     @ price_label @ format_fixed True 4 price @ ''</b>'' @ [CHR 0x0A]
     @ quantity_label @ format_fixed False 6 quantity @ ''</b>'' @ [CHR 0x0A]
     @ time_label @ timestamp @ ''</b>'' @ [CHR 0x0A, CHR 0x0A]
     @ link_open @ symbol_upper @ link_close"

definition format_trade_message ::
  "(int \<Rightarrow> string option) \<Rightarrow> trade_json \<Rightarrow> string \<Rightarrow> string \<Rightarrow> monitor \<Rightarrow> error + string" where
  "format_trade_message local_time trade_data market_type symbol m =
     (case get_float (tr_p trade_data) of Inl e \<Rightarrow> Inl e | Inr price \<Rightarrow>
     (case get_float (tr_q trade_data) of Inl e \<Rightarrow> Inl e | Inr quantity \<Rightarrow>
     (case get_field (tr_T trade_data) of Inl e \<Rightarrow> Inl e | Inr t \<Rightarrow>
     (case local_time t of None \<Rightarrow> Inl ValueError | Some timestamp \<Rightarrow>
        let amount = fmul price quantity;
            is_buyer_maker = (case tr_m trade_data of None \<Rightarrow> False | Some b \<Rightarrow> b);
            trade_type = (if \<not> is_buyer_maker then buy_label else sell_label);
            market_emoji = (if market_type = ''SPOT'' then spot_emoji else futures_emoji);
            asset_emoji = get_asset_emoji m symbol
        in Inr (render_message market_emoji market_type (upper symbol) asset_emoji trade_type
                  (amount_str amount) price quantity timestamp)))))"

text \<open>
  The local variable \<^verbatim>\<open>timestamp\<close> of \<^verbatim>\<open>format_trade_message\<close>: there is none when
  the entry \<^verbatim>\<open>T\<close> is absent or no number, or when the clock cannot render it.
\<close>

definition event_time :: "(int \<Rightarrow> string option) \<Rightarrow> trade_json \<Rightarrow> string option" where
  "event_time local_time trade_data =
     (case tr_T trade_data of
        Absent \<Rightarrow> None
      | Invalid \<Rightarrow> None
      | Val t \<Rightarrow> local_time t)"

section \<open>Broadcast dispatcher\<close>

text \<open>
  What one call of \<^verbatim>\<open>send_telegram_notification\<close> reads from outside the monitor:
  the clock at the admission check, the outcome of the \<^verbatim>\<open>sendMessage\<close> request for
  each chat id, the clock when the file is saved and when the timestamp is appended.
  The coroutine is suspended while a delivery is awaited, and the other tasks of the
  event loop (the other feed handlers, the inbox poller) run then: \<open>meanwhile env k\<close>
  is what they do to the monitor while the \<open>k\<close>-th delivery of the pass is awaited.
\<close>

datatype response =
    Status nat      \<comment> \<open>the request returned with this status code\<close>
  | NoResponse      \<comment> \<open>the request, or reading the body of a non-200 reply, raised\<close>

record pass_env =
  admit_time :: real
  respond :: "int \<Rightarrow> response"
  meanwhile :: "nat \<Rightarrow> monitor \<Rightarrow> monitor"
  save_time :: real
  sent_time :: real

text \<open>The body of the \<^verbatim>\<open>try\<close> in the loop, on the two local variables.\<close>

fun tally :: "response \<Rightarrow> int \<Rightarrow> nat \<times> int list \<Rightarrow> nat \<times> int list" where
  "tally (Status s) user_id (success_count, failed_users) =
     (if s = 200 then (success_count + 1, failed_users)
      else if s = 403 then (success_count, failed_users @ [user_id])
      else (success_count, failed_users))"
| "tally NoResponse user_id (success_count, failed_users) = (success_count, failed_users)"

text \<open>
  The loop \<^verbatim>\<open>for user_id in self.subscribed_users\<close> runs over the set object
  itself. The set iterator remembers the size \<open>n0\<close> the set had when the loop began
  and its position; each step first compares the set's present size with \<open>n0\<close> and
  raises \<^verbatim>\<open>RuntimeError\<close> ("Set changed size during iteration") when they
  differ. The exception leaves the loop and the function: the \<^verbatim>\<open>try\<close> is inside
  the loop body. (A change of the set that keeps its size is not detected; what the
  iteration then yields depends on the hash table and is outside this model.)
\<close>

function deliver_loop ::
  "pass_env \<Rightarrow> string \<Rightarrow> nat \<Rightarrow> nat \<Rightarrow> nat \<times> int list \<Rightarrow> monitor
     \<Rightarrow> (error \<times> monitor) + ((nat \<times> int list) \<times> monitor)" where
  "deliver_loop env message n0 pos acc m =
     (if length (subscribed_users m) \<noteq> n0 then Inl (RuntimeError, m)
      else if n0 \<le> pos then Inr (acc, m)
      else deliver_loop env message n0 (Suc pos)
             (tally (respond env (subscribed_users m ! pos)) (subscribed_users m ! pos) acc)
             (meanwhile env pos
                (m\<lparr>posts := posts m @ [(subscribed_users m ! pos, message)]\<rparr>)))"
  by pat_completeness auto
termination
  by (relation "measure (\<lambda>(env, message, n0, pos, acc, m). n0 - pos)") auto

declare deliver_loop.simps [simp del]

text \<open>The statements after the loop.\<close>

definition finish_pass :: "pass_env \<Rightarrow> nat \<times> int list \<Rightarrow> monitor \<Rightarrow> monitor" where
  "finish_pass env acc m =
     (case acc of (success_count, failed_users) \<Rightarrow>
        let m1 = (if failed_users \<noteq> []
                  then save_subscribers (save_time env)
                         (m\<lparr>subscribed_users :=
                              filter (\<lambda>u. u \<notin> set failed_users) (subscribed_users m)\<rparr>)
                  else m)
        in if 0 < success_count
           then m1\<lparr>notifications_sent := notifications_sent m1 + success_count,
                   notification_timestamps := notification_timestamps m1 @ [sent_time env]\<rparr>
           else m1)"

definition send_telegram_notification ::
  "pass_env \<Rightarrow> string \<Rightarrow> monitor \<Rightarrow> (error \<times> monitor) + monitor" where
  "send_telegram_notification env message m =
     (let m0 = m\<lparr>broadcasts := broadcasts m @ [message]\<rparr>
      in if subscribed_users m0 = [] then Inr m0
         else (case can_send_notification (admit_time env) m0 of
           (admitted, m1) \<Rightarrow>
             if \<not> admitted then Inr m1
             else (case deliver_loop env message (length (subscribed_users m1)) 0 (0, []) m1 of
                     Inl e \<Rightarrow> Inl e
                   | Inr (acc, m2) \<Rightarrow> Inr (finish_pass env acc m2))))"

text \<open>A pass during which no other task touches the monitor.\<close>

definition undisturbed :: "pass_env \<Rightarrow> pass_env" where
  "undisturbed env = env\<lparr>meanwhile := \<lambda>k m. m\<rparr>"

text \<open>
  Whether a call raised, and the monitor it leaves behind either way (the monitor is
  mutated in place, so what was done before an exception stays done).
\<close>

definition raised :: "(error \<times> monitor) + monitor \<Rightarrow> bool" where
  "raised r = (case r of Inl x \<Rightarrow> True | Inr m \<Rightarrow> False)"

definition state_after :: "(error \<times> monitor) + monitor \<Rightarrow> monitor" where
  "state_after r = (case r of Inl x \<Rightarrow> snd x | Inr m \<Rightarrow> m)"

text \<open>The window as the admission check at \<open>now\<close> leaves it.\<close>

definition pruned :: "real \<Rightarrow> monitor \<Rightarrow> real list" where
  "pruned now m = filter (\<lambda>ts. now - ts < 60) (notification_timestamps m)"

text \<open>The recipients whose delivery returns 200, and those whose delivery returns 403.\<close>

definition delivered :: "pass_env \<Rightarrow> monitor \<Rightarrow> int list" where
  "delivered env m = filter (\<lambda>u. respond env u = Status 200) (subscribed_users m)"

definition blocked :: "pass_env \<Rightarrow> monitor \<Rightarrow> int list" where
  "blocked env m = filter (\<lambda>u. respond env u = Status 403) (subscribed_users m)"

subsection \<open>Trade handler\<close>

text \<open>
  \<^verbatim>\<open>handle_trade\<close>. Every exception raised in its body is caught and logged: the
  monitor stays as it was when the exception was raised.
\<close>

definition count_trade :: "string \<Rightarrow> string \<Rightarrow> monitor \<Rightarrow> monitor" where
  "count_trade market_type symbol m =
     (let m1 = m\<lparr>total_trades := total_trades m + 1\<rparr>
      in if market_type = ''SPOT''
         then m1\<lparr>spot_trades := (spot_trades m1)(symbol := spot_trades m1 symbol + 1)\<rparr>
         else m1\<lparr>futures_trades := (futures_trades m1)(symbol := futures_trades m1 symbol + 1)\<rparr>)"

definition handle_trade ::
  "(int \<Rightarrow> string option) \<Rightarrow> pass_env \<Rightarrow> raw_message \<Rightarrow> string \<Rightarrow> string \<Rightarrow> monitor \<Rightarrow> monitor" where
  "handle_trade local_time env message market_type symbol m =
     (case message of
        Garbage \<Rightarrow> m
      | Object trade_data \<Rightarrow>
          (case get_float (tr_p trade_data) of Inl e \<Rightarrow> m | Inr price \<Rightarrow>
          (case get_float (tr_q trade_data) of Inl e \<Rightarrow> m | Inr quantity \<Rightarrow>
             let amount = fmul price quantity;
                 m1 = count_trade market_type symbol m
             in if min_amount m1 \<le> float_value amount
                then (case format_trade_message local_time trade_data market_type symbol m1 of
                        Inl e \<Rightarrow> m1
                      | Inr formatted_message \<Rightarrow>
                          state_after (send_telegram_notification env formatted_message m1))
                else m1)))"

section \<open>Feed connection handler\<close>

text \<open>
  \<^verbatim>\<open>websocket_handler\<close> is a \<^verbatim>\<open>while True\<close> loop that never returns. One round of
  the loop is one attempt to connect: the attempt raises, or the connection is made and
  delivers messages until it raises or is closed in order (then the \<^verbatim>\<open>async for\<close>
  ends without an exception and the loop connects again at once). The function runs the
  loop over the outcomes of its first attempts; each message comes with what its
  broadcast reads from outside. The handler's effects are the addresses it connects to
  and the arguments of \<^verbatim>\<open>asyncio.sleep\<close>.
\<close>

datatype stream_end = ClosedInOrder | Raised

datatype connection =
    ConnectFailed
  | Connected "(raw_message \<times> pass_env) list" stream_end

record feed =
  the_monitor :: monitor
  connects :: "string list"
  sleeps :: "real list"

definition ws_url :: "string \<Rightarrow> string \<Rightarrow> string" where
  "ws_url symbol market_type =
     (if market_type = ''SPOT''
      then ''wss://stream.binance.com:9443/ws/'' @ symbol @ ''@trade''
      else ''wss://fstream.binance.com/ws/'' @ symbol @ ''@trade'')"

fun stream_messages ::
  "(int \<Rightarrow> string option) \<Rightarrow> (raw_message \<times> pass_env) list \<Rightarrow> string \<Rightarrow> string
     \<Rightarrow> monitor \<Rightarrow> monitor" where
  "stream_messages local_time [] market_type symbol m = m"
| "stream_messages local_time ((message, env) # rest) market_type symbol m =
     stream_messages local_time rest market_type symbol
       (handle_trade local_time env message market_type symbol m)"

fun websocket_handler ::
  "(int \<Rightarrow> string option) \<Rightarrow> string \<Rightarrow> string \<Rightarrow> connection list \<Rightarrow> feed \<Rightarrow> feed" where
  "websocket_handler local_time symbol market_type [] f = f"
| "websocket_handler local_time symbol market_type (ConnectFailed # rest) f =
     websocket_handler local_time symbol market_type rest
       (f\<lparr>connects := connects f @ [ws_url symbol market_type],
          sleeps := sleeps f @ [5]\<rparr>)"
| "websocket_handler local_time symbol market_type (Connected messages ending # rest) f =
     websocket_handler local_time symbol market_type rest
       (f\<lparr>the_monitor :=
            stream_messages local_time messages market_type symbol (the_monitor f),
          connects := connects f @ [ws_url symbol market_type],
          sleeps := (case ending of
                       ClosedInOrder \<Rightarrow> sleeps f
                     | Raised \<Rightarrow> sleeps f @ [5])\<rparr>)"

text \<open>The attempts that end in an exception: the ones the handler sleeps after.\<close>

fun failed :: "connection \<Rightarrow> bool" where
  "failed ConnectFailed = True"
| "failed (Connected messages ending) = (ending = Raised)"

section \<open>The bound on the window\<close>

text \<open>
  The window holds no more timestamps than the configured maximum; and a broadcast
  during which the other tasks leave the window and the settings alone.
\<close>

definition window_bounded :: "monitor \<Rightarrow> bool" where
  "window_bounded m \<longleftrightarrow> int (length (notification_timestamps m)) \<le> max_per_minute m"

definition leaves_window :: "pass_env \<Rightarrow> bool" where
  "leaves_window env \<longleftrightarrow>
     (\<forall>k m. notification_timestamps (meanwhile env k m) = notification_timestamps m
          \<and> notification_settings (meanwhile env k m) = notification_settings m)"

section \<open>Example inputs\<close>

text \<open>
  A monitor built by \<^verbatim>\<open>__init__\<close> from the shipped configuration and a saved file with
  two subscribers, and what broadcasts read from outside: every delivery succeeds,
  the first recipient has blocked the bot, every delivery fails with status 500.
\<close>

definition saved_file :: file_content where
  "saved_file =
     Json \<lparr>js_subscribers = Some [101, 102], js_last_updated = 0, js_total_count = 2\<rparr>"

definition monitor0 :: monitor where
  "monitor0 = BinanceMultiMonitor config_py (MIN_AMOUNT config_py) saved_file True"

definition env_ok :: pass_env where
  "env_ok =
     \<lparr>admit_time = 100, respond = (\<lambda>u. Status 200), meanwhile = (\<lambda>k m. m),
      save_time = 101, sent_time = 102\<rparr>"

definition env_blocked :: pass_env where
  "env_blocked =
     \<lparr>admit_time = 100, respond = (\<lambda>u. if u = 101 then Status 403 else Status 200),
      meanwhile = (\<lambda>k m. m), save_time = 101, sent_time = 102\<rparr>"

definition env_down :: pass_env where
  "env_down =
     \<lparr>admit_time = 100, respond = (\<lambda>u. Status 500), meanwhile = (\<lambda>k m. m),
      save_time = 101, sent_time = 102\<rparr>"

text \<open>
  Trades: price 50000.00 and quantity 25.0 with the buyer as taker; a trade of notional
  999,999; the first trade without its event time; a trade whose price and quantity
  multiply to less than 1,000,000 as decimal numbers and to exactly 1,000,000 as floats;
  and a sale of 1000000.5 at 0.00725. The clock renders the one event time (in UTC).
  \<open>alert_big\<close> and \<open>alert_sell\<close> are the texts Python's format specifications give
  for the first trade on the spot feed of \<^verbatim>\<open>btcusdt\<close> and for the last on the futures
  feed of \<^verbatim>\<open>dogeusdt\<close>.
\<close>

definition trade_big :: trade_json where
  "trade_big = \<lparr>tr_p = Val 50000, tr_q = Val 25, tr_T = Val 1700000000000, tr_m = Some False\<rparr>"

definition trade_small :: trade_json where
  "trade_small = \<lparr>tr_p = Val 999999, tr_q = Val 1, tr_T = Val 1700000000000, tr_m = Some True\<rparr>"

definition trade_no_time :: trade_json where
  "trade_no_time = \<lparr>tr_p = Val 50000, tr_q = Val 25, tr_T = Absent, tr_m = Some False\<rparr>"

definition trade_edge :: trade_json where
  "trade_edge =
     \<lparr>tr_p = Val 111111.11, tr_q = Val 9.00000009, tr_T = Val 1700000000000,
      tr_m = Some False\<rparr>"

definition trade_sell :: trade_json where
  "trade_sell =
     \<lparr>tr_p = Val 0.00725, tr_q = Val 1000000.5, tr_T = Val 1700000000000, tr_m = Some True\<rparr>"

definition clock0 :: "int \<Rightarrow> string option" where
  "clock0 t = (if t = 1700000000000 then Some ''2023-11-14 22:13:20'' else None)"

definition alert_big :: string where
  "alert_big =
     [CHR 0xF0, CHR 0x9F, CHR 0x92, CHR 0xB1] @ '' <b>SPOT BTCUSDT</b> '' @
       [CHR 0xE2, CHR 0x82, CHR 0xBF, CHR 0x0A, CHR 0x0A, CHR 0xF0, CHR 0x9F, CHR 0x9F,
        CHR 0xA2] @
       '' '' @
       [CHR 0xD0, CHR 0x9F, CHR 0xD0, CHR 0x9E, CHR 0xD0, CHR 0x9A, CHR 0xD0, CHR 0xA3,
        CHR 0xD0, CHR 0x9F, CHR 0xD0, CHR 0x9A, CHR 0xD0, CHR 0x90, CHR 0x0A, CHR 0xF0,
        CHR 0x9F, CHR 0x92, CHR 0xB0] @
       '' '' @
       [CHR 0xD0, CHR 0xA1, CHR 0xD1, CHR 0x83, CHR 0xD0, CHR 0xBC, CHR 0xD0, CHR 0xBC,
        CHR 0xD0, CHR 0xB0] @
       '': <b>$1.25M</b>'' @ [CHR 0x0A, CHR 0xF0, CHR 0x9F, CHR 0x92, CHR 0xB5] @ '' '' @
       [CHR 0xD0, CHR 0xA6, CHR 0xD0, CHR 0xB5, CHR 0xD0, CHR 0xBD, CHR 0xD0, CHR 0xB0] @
       '': <b>$50,000.0000</b>'' @ [CHR 0x0A, CHR 0xF0, CHR 0x9F, CHR 0x93, CHR 0x8A] @
       '' '' @
       [CHR 0xD0, CHR 0x9E, CHR 0xD0, CHR 0xB1, CHR 0xD1, CHR 0x8A, CHR 0xD1, CHR 0x91,
        CHR 0xD0, CHR 0xBC] @
       '': <b>25.000000</b>'' @ [CHR 0x0A, CHR 0xE2, CHR 0x8F, CHR 0xB0] @ '' '' @
       [CHR 0xD0, CHR 0x92, CHR 0xD1, CHR 0x80, CHR 0xD0, CHR 0xB5, CHR 0xD0, CHR 0xBC,
        CHR 0xD1, CHR 0x8F] @
       '': <b>2023-11-14 22:13:20</b>'' @
       [CHR 0x0A, CHR 0x0A, CHR 0xF0, CHR 0x9F, CHR 0x94, CHR 0x97] @ '' <a href='' @
       [CHR 0x22] @ ''https://www.binance.com/ru/trade/BTCUSDT'' @ [CHR 0x22] @ ''>'' @
       [CHR 0xD0, CHR 0x9E, CHR 0xD1, CHR 0x82, CHR 0xD0, CHR 0xBA, CHR 0xD1, CHR 0x80,
        CHR 0xD1, CHR 0x8B, CHR 0xD1, CHR 0x82, CHR 0xD1, CHR 0x8C] @
       '' Binance</a>''"

definition alert_sell :: string where
  "alert_sell =
     [CHR 0xF0, CHR 0x9F, CHR 0x93, CHR 0x88] @ '' <b>FUTURES DOGEUSDT</b> '' @
       [CHR 0xF0, CHR 0x9F, CHR 0x90, CHR 0x95, CHR 0x0A, CHR 0x0A, CHR 0xF0, CHR 0x9F,
        CHR 0x94, CHR 0xB4] @
       '' '' @
       [CHR 0xD0, CHR 0x9F, CHR 0xD0, CHR 0xA0, CHR 0xD0, CHR 0x9E, CHR 0xD0, CHR 0x94,
        CHR 0xD0, CHR 0x90, CHR 0xD0, CHR 0x96, CHR 0xD0, CHR 0x90, CHR 0x0A, CHR 0xF0,
        CHR 0x9F, CHR 0x92, CHR 0xB0] @
       '' '' @
       [CHR 0xD0, CHR 0xA1, CHR 0xD1, CHR 0x83, CHR 0xD0, CHR 0xBC, CHR 0xD0, CHR 0xBC,
        CHR 0xD0, CHR 0xB0] @
       '': <b>$7.3K</b>'' @ [CHR 0x0A, CHR 0xF0, CHR 0x9F, CHR 0x92, CHR 0xB5] @ '' '' @
       [CHR 0xD0, CHR 0xA6, CHR 0xD0, CHR 0xB5, CHR 0xD0, CHR 0xBD, CHR 0xD0, CHR 0xB0] @
       '': <b>$0.0073</b>'' @ [CHR 0x0A, CHR 0xF0, CHR 0x9F, CHR 0x93, CHR 0x8A] @ '' '' @
       [CHR 0xD0, CHR 0x9E, CHR 0xD0, CHR 0xB1, CHR 0xD1, CHR 0x8A, CHR 0xD1, CHR 0x91,
        CHR 0xD0, CHR 0xBC] @
       '': <b>1000000.500000</b>'' @ [CHR 0x0A, CHR 0xE2, CHR 0x8F, CHR 0xB0] @ '' '' @
       [CHR 0xD0, CHR 0x92, CHR 0xD1, CHR 0x80, CHR 0xD0, CHR 0xB5, CHR 0xD0, CHR 0xBC,
        CHR 0xD1, CHR 0x8F] @
       '': <b>2023-11-14 22:13:20</b>'' @
       [CHR 0x0A, CHR 0x0A, CHR 0xF0, CHR 0x9F, CHR 0x94, CHR 0x97] @ '' <a href='' @
       [CHR 0x22] @ ''https://www.binance.com/ru/trade/DOGEUSDT'' @ [CHR 0x22] @ ''>'' @
       [CHR 0xD0, CHR 0x9E, CHR 0xD1, CHR 0x82, CHR 0xD0, CHR 0xBA, CHR 0xD1, CHR 0x80,
        CHR 0xD1, CHR 0x8B, CHR 0xD1, CHR 0x82, CHR 0xD1, CHR 0x8C] @
       '' Binance</a>''"

text \<open>
  Broadcasts that are disturbed: while the first delivery is awaited the inbox poller
  finds a new sender; while the first delivery is awaited another feed handler runs a
  whole broadcast of its own. And the monitor with a maximum of one notification per
  minute.
\<close>

definition env_poll :: pass_env where
  "env_poll =
     \<lparr>admit_time = 100, respond = (\<lambda>u. Status 200),
      meanwhile = (\<lambda>k m. if k = 0
                     then get_subscribed_users 100 (Reply 200 True [MessageFrom 103]) m
                     else m),
      save_time = 101, sent_time = 102\<rparr>"

definition env_overlap :: pass_env where
  "env_overlap =
     \<lparr>admit_time = 100, respond = (\<lambda>u. Status 200),
      meanwhile = (\<lambda>k m. if k = 0
                     then state_after (send_telegram_notification env_ok ''other'' m)
                     else m),
      save_time = 103, sent_time = 104\<rparr>"

definition monitor1 :: monitor where
  "monitor1 =
     monitor0\<lparr>notification_settings :=
       (notification_settings monitor0)\<lparr>max_notifications_per_minute := Some 1\<rparr>\<rparr>"

section \<open>Properties of the rate limiter\<close>

lemma filter_drops_oldest:
  fixes w :: "real list"
  assumes "w \<noteq> []" and "60 \<le> now - Min (set w)"
  shows "length (filter (\<lambda>ts. now - ts < 60) w) < length w"
proof -
  have "Min (set w) \<in> set w" using assms(1) by simp
  then have "\<exists>x \<in> set w. \<not> (now - x < 60)" using assms(2) by (metis not_less)
  then obtain x where "x \<in> set w" and "\<not> (now - x < 60)" by blast
  then show ?thesis by (rule length_filter_less)
qed

text \<open>
  C3. The admission check replaces the window by its entries \<open>ts\<close> with
  \<open>now - ts < 60\<close>, whatever it answers, and answers yes exactly when the pruned window
  is shorter than the maximum. So with as many entries as the maximum inside the last 60
  seconds the next request is refused; and when the window holds no more entries than the
  maximum and 60 seconds have passed since its earliest entry, the request is admitted.
\<close>

theorem can_send_notification_window:
  "snd (can_send_notification now m) =
     m\<lparr>notification_timestamps := filter (\<lambda>ts. now - ts < 60) (notification_timestamps m)\<rparr>
   \<and> (fst (can_send_notification now m) \<longleftrightarrow>
        int (length (filter (\<lambda>ts. now - ts < 60) (notification_timestamps m)))
          < max_per_minute m)
   \<and> (max_per_minute m
          \<le> int (length (filter (\<lambda>ts. now - ts < 60) (notification_timestamps m)))
        \<longrightarrow> \<not> fst (can_send_notification now m))
   \<and> (notification_timestamps m \<noteq> []
        \<and> int (length (notification_timestamps m)) \<le> max_per_minute m
        \<and> 60 \<le> now - Min (set (notification_timestamps m))
        \<longrightarrow> fst (can_send_notification now m))"
proof -
  have a: "snd (can_send_notification now m) =
     m\<lparr>notification_timestamps := filter (\<lambda>ts. now - ts < 60) (notification_timestamps m)\<rparr>"
    by (simp add: can_send_notification_def Let_def)
  have b: "fst (can_send_notification now m) \<longleftrightarrow>
        int (length (filter (\<lambda>ts. now - ts < 60) (notification_timestamps m)))
          < max_per_minute m"
    by (simp add: can_send_notification_def Let_def max_per_minute_def)
  have c: "fst (can_send_notification now m)"
    if "notification_timestamps m \<noteq> []"
      and "int (length (notification_timestamps m)) \<le> max_per_minute m"
      and "60 \<le> now - Min (set (notification_timestamps m))"
    using filter_drops_oldest [OF that(1) that(3)] that(2) b by linarith
  from a b c show ?thesis by auto
qed

theorem can_send_notification_window_witness:
  "max_per_minute (monitor0\<lparr>notification_timestamps := [0, 30, 40, 41, 42, 43, 44, 45, 46, 47]\<rparr>)
     \<le> int (length (filter (\<lambda>ts. (50::real) - ts < 60) [0, 30, 40, 41, 42, 43, 44, 45, 46, 47]))
   \<and> \<not> fst (can_send_notification 50
          (monitor0\<lparr>notification_timestamps := [0, 30, 40, 41, 42, 43, 44, 45, 46, 47]\<rparr>))
   \<and> 60 \<le> (60::real) - Min (set [0, 30, 40, 41, 42, 43, 44, 45, 46, 47])
   \<and> fst (can_send_notification 60
          (monitor0\<lparr>notification_timestamps := [0, 30, 40, 41, 42, 43, 44, 45, 46, 47]\<rparr>))
   \<and> notification_timestamps (snd (can_send_notification 60
          (monitor0\<lparr>notification_timestamps := [0, 30, 40, 41, 42, 43, 44, 45, 46, 47]\<rparr>)))
       = [30, 40, 41, 42, 43, 44, 45, 46, 47]"
  using can_send_notification_window
          [of 50 "monitor0\<lparr>notification_timestamps := [0, 30, 40, 41, 42, 43, 44, 45, 46, 47]\<rparr>"]
        can_send_notification_window
          [of 60 "monitor0\<lparr>notification_timestamps := [0, 30, 40, 41, 42, 43, 44, 45, 46, 47]\<rparr>"]
  by (simp add: monitor0_def BinanceMultiMonitor_def load_subscribers_def saved_file_def
        config_py_def max_per_minute_def)

section \<open>Properties of the broadcast dispatcher\<close>

lemma foldl_tally:
  "foldl (\<lambda>a u. tally (respond env u) u a) (sc, fu) us =
     (sc + length (filter (\<lambda>u. respond env u = Status 200) us),
      fu @ filter (\<lambda>u. respond env u = Status 403) us)"
proof (induction us arbitrary: sc fu)
  case Nil
  then show ?case by simp
next
  case (Cons u us)
  show ?case
  proof (cases "respond env u")
    case (Status s)
    then show ?thesis using Cons.IH by simp
  next
    case NoResponse
    then show ?thesis using Cons.IH by simp
  qed
qed

lemma deliver_loop_undisturbed:
  assumes "length (subscribed_users m) = n0"
  shows "deliver_loop (undisturbed env) message n0 pos acc m =
     Inr (foldl (\<lambda>a u. tally (respond env u) u a) acc (drop pos (subscribed_users m)),
          m\<lparr>posts := posts m @ map (\<lambda>u. (u, message)) (drop pos (subscribed_users m))\<rparr>)"
  using assms
proof (induction "n0 - pos" arbitrary: pos acc m)
  case 0
  then show ?case by (simp add: deliver_loop.simps [of _ _ n0 pos])
next
  case (Suc k)
  then have lt: "pos < length (subscribed_users m)" by simp
  let ?u = "subscribed_users m ! pos"
  let ?m1 = "m\<lparr>posts := posts m @ [(?u, message)]\<rparr>"
  have step: "deliver_loop (undisturbed env) message n0 pos acc m =
      deliver_loop (undisturbed env) message n0 (Suc pos) (tally (respond env ?u) ?u acc) ?m1"
    using Suc.prems lt by (simp add: deliver_loop.simps [of _ _ n0 pos] undisturbed_def)
  have k: "k = n0 - Suc pos" using Suc.hyps(2) by simp
  have len: "length (subscribed_users ?m1) = n0" using Suc.prems by simp
  have dr: "drop pos (subscribed_users m) = ?u # drop (Suc pos) (subscribed_users m)"
    using lt by (simp add: Cons_nth_drop_Suc)
  show ?case
    unfolding step Suc.hyps(1) [OF k len] dr by simp
qed

lemma finish_pass_undisturbed: "finish_pass (undisturbed env) acc m = finish_pass env acc m"
  by (cases acc) (simp add: finish_pass_def undisturbed_def)

lemma send_undisturbed:
  "send_telegram_notification (undisturbed env) message m =
     Inr (if subscribed_users m = [] then m\<lparr>broadcasts := broadcasts m @ [message]\<rparr>
          else if \<not> fst (can_send_notification (admit_time env) m)
          then m\<lparr>broadcasts := broadcasts m @ [message],
                  notification_timestamps := pruned (admit_time env) m\<rparr>
          else finish_pass env (length (delivered env m), blocked env m)
                 (m\<lparr>broadcasts := broadcasts m @ [message],
                    notification_timestamps := pruned (admit_time env) m,
                    posts := posts m @ map (\<lambda>u. (u, message)) (subscribed_users m)\<rparr>))"
proof -
  let ?m0 = "m\<lparr>broadcasts := broadcasts m @ [message]\<rparr>"
  let ?m1 = "?m0\<lparr>notification_timestamps := pruned (admit_time env) m\<rparr>"
  have cs: "can_send_notification (admit_time env) ?m0 =
      (fst (can_send_notification (admit_time env) m), ?m1)"
    by (simp add: can_send_notification_def Let_def max_per_minute_def pruned_def)
  have at: "admit_time (undisturbed env) = admit_time env" by (simp add: undisturbed_def)
  have loop: "deliver_loop (undisturbed env) message (length (subscribed_users m)) 0 (0, []) ?m1 =
      Inr ((length (delivered env m), blocked env m),
           ?m1\<lparr>posts := posts m @ map (\<lambda>u. (u, message)) (subscribed_users m)\<rparr>)"
    by (simp add: deliver_loop_undisturbed foldl_tally delivered_def blocked_def)
  show ?thesis
    unfolding send_telegram_notification_def Let_def at
    by (simp add: cs loop finish_pass_undisturbed)
qed

lemma can_send_fst:
  "fst (can_send_notification now m) \<longleftrightarrow> int (length (pruned now m)) < max_per_minute m"
  by (simp add: can_send_notification_def Let_def max_per_minute_def pruned_def)

lemma can_send_snd:
  "snd (can_send_notification now m) = m\<lparr>notification_timestamps := pruned now m\<rparr>"
  by (simp add: can_send_notification_def Let_def pruned_def)

lemma filter_not_blocked:
  "filter (\<lambda>u. u \<in> set us \<longrightarrow> respond env u \<noteq> Status 403) us =
   filter (\<lambda>u. respond env u \<noteq> Status 403) us"
  by (rule filter_cong) auto

lemma finish_pass_accounting:
  "notifications_sent (finish_pass env (sc, fu) m) = notifications_sent m + sc
   \<and> notification_timestamps (finish_pass env (sc, fu) m) =
       notification_timestamps m @ (if 0 < sc then [sent_time env] else [])"
  by (simp add: finish_pass_def save_subscribers_def Let_def)

lemma finish_pass_registry:
  "subscribed_users (finish_pass env (sc, fu) m) =
     filter (\<lambda>u. u \<notin> set fu) (subscribed_users m)
   \<and> save_calls (finish_pass env (sc, fu) m) = save_calls m + (if fu = [] then 0 else 1)"
  by (simp add: finish_pass_def save_subscribers_def Let_def)

text \<open>
  C1, as the code has it. A pass that finds the registry non-empty, is admitted and is
  not disturbed by another task returns normally; it adds to \<^verbatim>\<open>notifications_sent\<close>
  the number of deliveries that returned status 200 (not one per pass), and appends
  one timestamp to the pruned window if at least one delivery succeeded and none
  otherwise: the accounting stands under \<^verbatim>\<open>if success_count > 0\<close>.
\<close>

theorem broadcast_accounting:
  assumes "subscribed_users m \<noteq> []"
    and "fst (can_send_notification (admit_time env) m)"
  shows "\<not> raised (send_telegram_notification (undisturbed env) message m)
    \<and> notifications_sent (state_after (send_telegram_notification (undisturbed env) message m))
        = notifications_sent m + length (delivered env m)
    \<and> notification_timestamps
          (state_after (send_telegram_notification (undisturbed env) message m))
        = pruned (admit_time env) m @ (if delivered env m = [] then [] else [sent_time env])"
  using assms
  by (simp add: send_undisturbed raised_def state_after_def finish_pass_accounting)

text \<open>
  The claim as stated fails: a pass whose two deliveries both fail leaves the counter
  and the window as they were, and a pass whose two deliveries both succeed adds two to
  the counter.
\<close>

theorem broadcast_accounting_counterexample:
  "subscribed_users monitor0 \<noteq> []
   \<and> fst (can_send_notification (admit_time env_down) monitor0)
   \<and> \<not> raised (send_telegram_notification env_down ''alert'' monitor0)
   \<and> notifications_sent (state_after (send_telegram_notification env_down ''alert'' monitor0))
       = notifications_sent monitor0
   \<and> notification_timestamps (state_after (send_telegram_notification env_down ''alert'' monitor0))
       = notification_timestamps monitor0
   \<and> fst (can_send_notification (admit_time env_ok) monitor0)
   \<and> notifications_sent (state_after (send_telegram_notification env_ok ''alert'' monitor0))
       = notifications_sent monitor0 + 2"
proof -
  have d: "undisturbed env_down = env_down" by (simp add: undisturbed_def env_down_def)
  have k: "undisturbed env_ok = env_ok" by (simp add: undisturbed_def env_ok_def)
  have u: "subscribed_users monitor0 = [101, 102]"
    by (simp add: monitor0_def BinanceMultiMonitor_def load_subscribers_def saved_file_def)
  have w: "notification_timestamps monitor0 = []"
    by (simp add: monitor0_def BinanceMultiMonitor_def load_subscribers_def saved_file_def)
  have n: "notifications_sent monitor0 = 0"
    by (simp add: monitor0_def BinanceMultiMonitor_def load_subscribers_def saved_file_def)
  have x: "max_per_minute monitor0 = 10"
    by (simp add: monitor0_def BinanceMultiMonitor_def load_subscribers_def saved_file_def
          max_per_minute_def config_py_def)
  have a: "fst (can_send_notification 100 monitor0)"
    by (simp add: can_send_fst pruned_def w x)
  show ?thesis
    using send_undisturbed [of env_down "''alert''" monitor0]
          send_undisturbed [of env_ok "''alert''" monitor0] a
    unfolding d k
    by (simp add: u w n raised_def state_after_def finish_pass_accounting pruned_def
          delivered_def env_down_def env_ok_def)
qed

lemma monitor0_fields:
  "subscribed_users monitor0 = [101, 102]"
  "notification_timestamps monitor0 = []"
  "notifications_sent monitor0 = 0"
  "save_calls monitor0 = 0"
  "posts monitor0 = []"
  "broadcasts monitor0 = []"
  "disk_writable monitor0"
  "max_per_minute monitor0 = 10"
  "min_amount monitor0 = 1000000"
  "total_trades monitor0 = 0"
  by (simp_all add: monitor0_def BinanceMultiMonitor_def load_subscribers_def saved_file_def
        max_per_minute_def config_py_def)

lemma monitor0_admits: "fst (can_send_notification 100 monitor0)"
  by (simp add: can_send_fst pruned_def monitor0_fields)

theorem broadcast_accounting_witness:
  "subscribed_users monitor0 \<noteq> []
   \<and> fst (can_send_notification (admit_time env_blocked) monitor0)
   \<and> \<not> raised (send_telegram_notification (undisturbed env_blocked) ''alert'' monitor0)
   \<and> notifications_sent
        (state_after (send_telegram_notification (undisturbed env_blocked) ''alert'' monitor0)) = 1
   \<and> notification_timestamps
        (state_after (send_telegram_notification (undisturbed env_blocked) ''alert'' monitor0))
       = [102]"
proof -
  have a: "fst (can_send_notification (admit_time env_blocked) monitor0)"
    using monitor0_admits by (simp add: env_blocked_def)
  have u: "subscribed_users monitor0 \<noteq> []" by (simp add: monitor0_fields)
  show ?thesis
    using broadcast_accounting [OF u a, of "''alert''"] a
    by (simp add: monitor0_fields delivered_def pruned_def env_blocked_def)
qed

text \<open>
  C2, as the code has it. After an admitted, undisturbed pass the registry holds
  exactly the recipients whose delivery did not return status 403, in their order;
  \<^verbatim>\<open>save_subscribers\<close> is called once when at least one recipient was removed and not
  at all when none was: the removal and the write stand under \<^verbatim>\<open>if failed_users\<close>.
\<close>

theorem broadcast_removal:
  assumes "subscribed_users m \<noteq> []"
    and "fst (can_send_notification (admit_time env) m)"
  shows "\<not> raised (send_telegram_notification (undisturbed env) message m)
    \<and> subscribed_users (state_after (send_telegram_notification (undisturbed env) message m))
        = filter (\<lambda>u. respond env u \<noteq> Status 403) (subscribed_users m)
    \<and> save_calls (state_after (send_telegram_notification (undisturbed env) message m))
        = save_calls m + (if blocked env m = [] then 0 else 1)"
  using assms
  by (simp add: send_undisturbed raised_def state_after_def finish_pass_registry
        blocked_def filter_not_blocked)

theorem broadcast_removal_witness:
  "subscribed_users monitor0 \<noteq> []
   \<and> fst (can_send_notification (admit_time env_blocked) monitor0)
   \<and> subscribed_users
        (state_after (send_telegram_notification (undisturbed env_blocked) ''alert'' monitor0))
       = [102]
   \<and> save_calls
        (state_after (send_telegram_notification (undisturbed env_blocked) ''alert'' monitor0))
       = 1"
proof -
  have a: "fst (can_send_notification (admit_time env_blocked) monitor0)"
    using monitor0_admits by (simp add: env_blocked_def)
  have u: "subscribed_users monitor0 \<noteq> []" by (simp add: monitor0_fields)
  show ?thesis
    using broadcast_removal [OF u a, of "''alert''"] a
    by (simp add: monitor0_fields blocked_def env_blocked_def)
qed

text \<open>
  The claim as stated fails where no recipient has blocked the bot: the pass writes
  nothing.
\<close>

theorem broadcast_removal_counterexample:
  "subscribed_users monitor0 \<noteq> []
   \<and> fst (can_send_notification (admit_time env_ok) monitor0)
   \<and> \<not> raised (send_telegram_notification env_ok ''alert'' monitor0)
   \<and> save_calls (state_after (send_telegram_notification env_ok ''alert'' monitor0))
       = save_calls monitor0"
proof -
  have k: "undisturbed env_ok = env_ok" by (simp add: undisturbed_def env_ok_def)
  have a: "fst (can_send_notification (admit_time env_ok) monitor0)"
    using monitor0_admits by (simp add: env_ok_def)
  show ?thesis
    using send_undisturbed [of env_ok "''alert''" monitor0] a
    unfolding k
    by (simp add: monitor0_fields raised_def state_after_def finish_pass_registry
          blocked_def env_ok_def)
qed

text \<open>
  C7. With an empty registry, or when the admission check refuses, the call returns
  normally and the monitor is the one it was given, but for the pruning of the window
  by the admission check (which is not even reached when the registry is empty) and the
  record of the call: no request is issued, the registry, the counter and the file are
  untouched, and nothing of the text is kept in any attribute a later call reads.
\<close>

theorem broadcast_noop:
  assumes "subscribed_users m = [] \<or> \<not> fst (can_send_notification (admit_time env) m)"
  shows "send_telegram_notification env message m =
      Inr ((if subscribed_users m = [] then m else snd (can_send_notification (admit_time env) m))
            \<lparr>broadcasts := broadcasts m @ [message]\<rparr>)
    \<and> posts (state_after (send_telegram_notification env message m)) = posts m
    \<and> subscribed_users (state_after (send_telegram_notification env message m))
        = subscribed_users m
    \<and> notification_timestamps (state_after (send_telegram_notification env message m))
        = (if subscribed_users m = [] then notification_timestamps m
           else pruned (admit_time env) m)
    \<and> notifications_sent (state_after (send_telegram_notification env message m))
        = notifications_sent m
    \<and> save_calls (state_after (send_telegram_notification env message m)) = save_calls m
    \<and> subscribers_file (state_after (send_telegram_notification env message m))
        = subscribers_file m"
proof -
  let ?m0 = "m\<lparr>broadcasts := broadcasts m @ [message]\<rparr>"
  have cs: "can_send_notification (admit_time env) ?m0 =
      (fst (can_send_notification (admit_time env) m),
       ?m0\<lparr>notification_timestamps := pruned (admit_time env) m\<rparr>)"
    by (simp add: can_send_notification_def Let_def max_per_minute_def pruned_def)
  have eq: "send_telegram_notification env message m =
      Inr ((if subscribed_users m = [] then m else snd (can_send_notification (admit_time env) m))
            \<lparr>broadcasts := broadcasts m @ [message]\<rparr>)"
    using assms
    by (auto simp add: send_telegram_notification_def Let_def cs can_send_snd)
  show ?thesis
    unfolding eq by (simp add: state_after_def can_send_snd)
qed

theorem broadcast_noop_witness:
  "subscribed_users (monitor0\<lparr>subscribed_users := []\<rparr>) = []
   \<and> posts (state_after (send_telegram_notification env_ok ''alert''
        (monitor0\<lparr>subscribed_users := []\<rparr>))) = []
   \<and> \<not> fst (can_send_notification (admit_time env_ok)
        (monitor0\<lparr>notification_timestamps := [50, 60, 61, 62, 63, 64, 65, 66, 67, 68, 69]\<rparr>))
   \<and> posts (state_after (send_telegram_notification env_ok ''alert''
        (monitor0\<lparr>notification_timestamps := [50, 60, 61, 62, 63, 64, 65, 66, 67, 68, 69]\<rparr>))) = []
   \<and> notification_timestamps (state_after (send_telegram_notification env_ok ''alert''
        (monitor0\<lparr>notification_timestamps := [10, 60, 61, 62, 63, 64, 65, 66, 67, 68, 69]\<rparr>)))
       = [60, 61, 62, 63, 64, 65, 66, 67, 68, 69]"
proof -
  have d1: "\<not> fst (can_send_notification (admit_time env_ok)
        (monitor0\<lparr>notification_timestamps := [50, 60, 61, 62, 63, 64, 65, 66, 67, 68, 69]\<rparr>))"
    by (simp add: can_send_fst pruned_def env_ok_def monitor0_fields max_per_minute_def
          monitor0_def BinanceMultiMonitor_def load_subscribers_def saved_file_def config_py_def)
  have d2: "\<not> fst (can_send_notification (admit_time env_ok)
        (monitor0\<lparr>notification_timestamps := [10, 60, 61, 62, 63, 64, 65, 66, 67, 68, 69]\<rparr>))"
    by (simp add: can_send_fst pruned_def env_ok_def monitor0_fields max_per_minute_def
          monitor0_def BinanceMultiMonitor_def load_subscribers_def saved_file_def config_py_def)
  show ?thesis
    using broadcast_noop [of "monitor0\<lparr>subscribed_users := []\<rparr>" env_ok "''alert''"]
          broadcast_noop [OF disjI2 [OF d1], of "''alert''"]
          broadcast_noop [OF disjI2 [OF d2], of "''alert''"] d1
    by (simp add: monitor0_fields pruned_def env_ok_def state_after_def can_send_snd)
qed

section \<open>Properties of the recipient registry\<close>

lemma save_subscribers_file:
  "disk_writable m \<Longrightarrow>
   subscribers_file (save_subscribers now m) =
     Json \<lparr>js_subscribers = Some (subscribed_users m), js_last_updated = now,
           js_total_count = int (length (subscribed_users m))\<rparr>"
  by (simp add: save_subscribers_def Let_def)

lemma load_subscribers_Json:
  "subscribers_file m = Json d \<Longrightarrow>
   subscribed_users (load_subscribers m) =
     remdups (case js_subscribers d of None \<Rightarrow> [] | Some ids \<Rightarrow> ids)"
  by (simp add: load_subscribers_def)

text \<open>
  C8. When the file can be written, what \<^verbatim>\<open>load_subscribers\<close> makes of the file
  \<^verbatim>\<open>save_subscribers\<close> wrote is the set that was saved, whatever the order of its
  members; two registries with the same members give the same set after the round trip.
  On load the set is made from the list of ids alone: the stored count (and the time)
  have no influence on it.
\<close>

theorem registry_round_trip:
  "(disk_writable m \<and> subscribers_file m2 = subscribers_file (save_subscribers now m)
      \<longrightarrow> set (subscribed_users (load_subscribers m2)) = set (subscribed_users m))
   \<and> (disk_writable m \<and> disk_writable n
        \<and> set (subscribed_users m) = set (subscribed_users n)
        \<and> subscribers_file m2 = subscribers_file (save_subscribers now m)
        \<and> subscribers_file n2 = subscribers_file (save_subscribers now' n)
      \<longrightarrow> set (subscribed_users (load_subscribers m2))
          = set (subscribed_users (load_subscribers n2)))
   \<and> subscribed_users
        (load_subscribers
           (m3\<lparr>subscribers_file :=
                 Json \<lparr>js_subscribers = Some ids, js_last_updated = t, js_total_count = c\<rparr>\<rparr>))
       = remdups ids"
proof -
  have rt: "set (subscribed_users (load_subscribers m2)) = set (subscribed_users m)"
    if "disk_writable m" and "subscribers_file m2 = subscribers_file (save_subscribers now m)"
    for m m2 :: monitor and now
    using that by (simp add: save_subscribers_file load_subscribers_Json)
  have cnt: "subscribed_users
        (load_subscribers
           (m3\<lparr>subscribers_file :=
                 Json \<lparr>js_subscribers = Some ids, js_last_updated = t, js_total_count = c\<rparr>\<rparr>))
       = remdups ids"
    by (simp add: load_subscribers_def)
  from rt cnt show ?thesis by metis
qed

theorem registry_round_trip_witness:
  "disk_writable (monitor0\<lparr>subscribed_users := [102, 101, 7]\<rparr>)
   \<and> set (subscribed_users
        (load_subscribers
           (monitor0\<lparr>subscribers_file :=
              subscribers_file (save_subscribers 5 (monitor0\<lparr>subscribed_users := [102, 101, 7]\<rparr>))\<rparr>)))
       = {7, 101, 102}
   \<and> subscribed_users
        (load_subscribers
           (monitor0\<lparr>subscribers_file :=
              Json \<lparr>js_subscribers = Some [3, 4, 3], js_last_updated = 0, js_total_count = 99\<rparr>\<rparr>))
       = [4, 3]"
proof -
  have w: "disk_writable (monitor0\<lparr>subscribed_users := [102, 101, 7]\<rparr>)"
    by (simp add: monitor0_fields)
  have f: "subscribers_file
             (monitor0\<lparr>subscribers_file :=
                subscribers_file (save_subscribers 5 (monitor0\<lparr>subscribed_users := [102, 101, 7]\<rparr>))\<rparr>)
           = subscribers_file (save_subscribers 5 (monitor0\<lparr>subscribed_users := [102, 101, 7]\<rparr>))"
    by simp
  show ?thesis
    using registry_round_trip
            [where m = "monitor0\<lparr>subscribed_users := [102, 101, 7]\<rparr>"
               and ?m2.0 = "monitor0\<lparr>subscribers_file :=
                   subscribers_file (save_subscribers 5 (monitor0\<lparr>subscribed_users := [102, 101, 7]\<rparr>))\<rparr>"
               and now = 5 and ids = "[3, 4, 3]" and t = 0 and c = 99 and ?m3.0 = monitor0] w f
    by auto
qed

section \<open>Properties of the trade classifier\<close>

lemma finish_pass_frame:
  "total_trades (finish_pass env acc m) = total_trades m"
  "spot_trades (finish_pass env acc m) = spot_trades m"
  "futures_trades (finish_pass env acc m) = futures_trades m"
  "broadcasts (finish_pass env acc m) = broadcasts m"
  "posts (finish_pass env acc m) = posts m"
  by (cases acc; simp add: finish_pass_def save_subscribers_def Let_def)+

lemma send_undisturbed_frame:
  "total_trades (state_after (send_telegram_notification (undisturbed env) message m))
     = total_trades m"
  "spot_trades (state_after (send_telegram_notification (undisturbed env) message m))
     = spot_trades m"
  "futures_trades (state_after (send_telegram_notification (undisturbed env) message m))
     = futures_trades m"
  "broadcasts (state_after (send_telegram_notification (undisturbed env) message m))
     = broadcasts m @ [message]"
  by (simp_all add: send_undisturbed state_after_def finish_pass_frame)

lemma count_trade_fields:
  "total_trades (count_trade market_type symbol m) = total_trades m + 1"
  "spot_trades (count_trade market_type symbol m) =
     (if market_type = ''SPOT'' then (spot_trades m)(symbol := spot_trades m symbol + 1)
      else spot_trades m)"
  "futures_trades (count_trade market_type symbol m) =
     (if market_type = ''SPOT'' then futures_trades m
      else (futures_trades m)(symbol := futures_trades m symbol + 1))"
  "broadcasts (count_trade market_type symbol m) = broadcasts m"
  "posts (count_trade market_type symbol m) = posts m"
  "min_amount (count_trade market_type symbol m) = min_amount m"
  by (simp_all add: count_trade_def Let_def)

lemma format_trade_message_decoded:
  assumes "tr_p d = Val p" and "tr_q d = Val q" and "event_time local_time d = Some stamp"
  shows "format_trade_message local_time d market_type symbol m =
     Inr (render_message
            (if market_type = ''SPOT'' then spot_emoji else futures_emoji)
            market_type (upper symbol) (get_asset_emoji m symbol)
            (if tr_m d = Some True then sell_label else buy_label)
            (amount_str (fmul (to_double p) (to_double q))) (to_double p) (to_double q) stamp)"
  using assms
  by (cases "tr_T d"; cases "tr_m d")
     (auto simp add: format_trade_message_def event_time_def Let_def)

lemma format_trade_message_no_time:
  assumes "event_time local_time d = None"
  shows "\<exists>e. format_trade_message local_time d market_type symbol m = Inl e"
  using assms
  by (cases "tr_T d")
     (auto simp add: format_trade_message_def event_time_def split: sum.splits)

lemma handle_trade_above:
  assumes "tr_p d = Val p" and "tr_q d = Val q"
    and "min_amount m \<le> float_value (fmul (to_double p) (to_double q))"
    and "format_trade_message local_time d market_type symbol (count_trade market_type symbol m)
           = Inr alert"
  shows "handle_trade local_time env (Object d) market_type symbol m =
     state_after (send_telegram_notification env alert (count_trade market_type symbol m))"
  using assms by (simp add: handle_trade_def Let_def count_trade_fields)

lemma handle_trade_below:
  assumes "tr_p d = Val p" and "tr_q d = Val q"
    and "\<not> min_amount m \<le> float_value (fmul (to_double p) (to_double q))"
  shows "handle_trade local_time env (Object d) market_type symbol m =
     count_trade market_type symbol m"
  using assms by (simp add: handle_trade_def Let_def count_trade_fields)

lemma handle_trade_unformatted:
  assumes "tr_p d = Val p" and "tr_q d = Val q"
    and "format_trade_message local_time d market_type symbol (count_trade market_type symbol m)
           = Inl e"
  shows "handle_trade local_time env (Object d) market_type symbol m =
     count_trade market_type symbol m"
  using assms by (simp add: handle_trade_def Let_def count_trade_fields)

subsection \<open>Evaluating floats and the formatter\<close>

lemma ulp_of_step:
  "0 < k \<Longrightarrow>
   ulp_of k x u =
     (if x < 2 ^ 52 then ulp_of (k - 1) (2 * x) (u / 2)
      else if 2 ^ 53 \<le> x then ulp_of (k - 1) (x / 2) (2 * u)
      else u)"
  by (cases k) simp_all

lemma float_value_to_double: "float_value (to_double x) = float_round x"
  by (simp add: to_double_def Double_inverse)

lemmas float_eval = fmul_def fdiv_def float_value_to_double float_round_def ulp_of_step
  round_half_even_def Let_def

lemma digits_small: "n < 10 \<Longrightarrow> digits n = [digit_char n]"
  by (simp add: digits.simps)

lemma digits_big: "10 \<le> n \<Longrightarrow> digits n = digits (n div 10) @ [digit_char (n mod 10)]"
  by (subst digits.simps) simp

lemma group3_small: "length ds \<le> 3 \<Longrightarrow> group3 ds = ds"
  by (simp add: group3.simps)

lemma group3_big:
  "3 < length ds \<Longrightarrow>
   group3 ds = group3 (take (length ds - 3) ds) @ '','' @ drop (length ds - 3) ds"
  by (subst group3.simps) simp

lemma replicate_pos: "0 < n \<Longrightarrow> replicate n x = x # replicate (n - 1) x"
  by (cases n) simp_all

lemmas fmt_eval = replicate_pos format_fixed_def round_half_even_def Let_def digits_small
  digits_big group3_small group3_big zero_pad_def digit_char_def

text \<open>The floats of the examples, as exact numbers.\<close>

lemma float_small_integers:
  "float_value (to_double 1000000) = 1000000"
  "float_value (to_double 1000) = 1000"
  "float_value (to_double 50000) = 50000"
  "float_value (to_double 25) = 25"
  "float_value (to_double 999999) = 999999"
  "float_value (to_double 1) = 1"
  by (simp_all add: float_eval)

lemma float_product_big: "float_value (fmul (to_double 50000) (to_double 25)) = 1250000"
  by (simp add: float_eval)

lemma float_product_small: "float_value (fmul (to_double 999999) (to_double 1)) = 999999"
  by (simp add: float_eval)

lemma float_edge:
  "float_value (to_double 111111.11) = 7635497338756137 / 68719476736"
  "float_value (to_double 9.00000009) = 633318703932163 / 70368744177664"
  by (simp_all add: float_eval)

lemma float_product_edge:
  "float_value (fmul (to_double 111111.11) (to_double 9.00000009)) = 1000000"
  by (simp add: fmul_def float_edge) (simp add: float_eval)

lemma monitor0_emojis: "asset_emojis monitor0 = ASSET_EMOJIS config_py"
  by (simp add: monitor0_def BinanceMultiMonitor_def load_subscribers_def saved_file_def)

lemma upper_btcusdt: "upper ''btcusdt'' = ''BTCUSDT''"
  by (simp add: upper_def upper_char_def)

lemma emoji_btcusdt: "get_asset_emoji monitor0 ''btcusdt'' = [CHR 0xE2, CHR 0x82, CHR 0xBF]"
  by (simp add: get_asset_emoji_def monitor0_emojis upper_btcusdt config_py_def)

lemma upper_dogeusdt: "upper ''dogeusdt'' = ''DOGEUSDT''"
  by (simp add: upper_def upper_char_def)

lemma emoji_dogeusdt:
  "get_asset_emoji monitor0 ''dogeusdt'' = [CHR 0xF0, CHR 0x9F, CHR 0x90, CHR 0x95]"
  by (simp add: get_asset_emoji_def monitor0_emojis upper_dogeusdt config_py_def)

lemma count_trade_emoji:
  "get_asset_emoji (count_trade market_type symbol m) s = get_asset_emoji m s"
  by (simp add: get_asset_emoji_def count_trade_def Let_def)

lemma price_big: "format_fixed True 4 (to_double 50000) = ''50,000.0000''"
  by (simp add: float_small_integers fmt_eval)

lemma quantity_big: "format_fixed False 6 (to_double 25) = ''25.000000''"
  by (simp add: float_small_integers fmt_eval)

lemma amount_big: "amount_str (fmul (to_double 50000) (to_double 25)) = ''$1.25M''"
proof -
  have q: "float_value (fdiv (fmul (to_double 50000) (to_double 25)) (to_double 1000000))
      = 5 / 4"
    by (simp add: fdiv_def float_product_big float_small_integers) (simp add: float_eval)
  show ?thesis
    by (simp add: amount_str_def float_product_big) (simp add: format_fixed_def q, simp add: fmt_eval)
qed

lemma amount_small: "amount_str (fmul (to_double 999999) (to_double 1)) = ''$1000.0K''"
proof -
  have q: "float_value (fdiv (fmul (to_double 999999) (to_double 1)) (to_double 1000))
      = 4398042113057489 / 4398046511104"
    by (simp add: fdiv_def float_product_small float_small_integers) (simp add: float_eval)
  show ?thesis
    by (simp add: amount_str_def float_product_small) (simp add: format_fixed_def q, simp add: fmt_eval)
qed

subsection \<open>What the formatted numbers show\<close>

lemma digit_char_digit: "digit_char k \<in> set ''0123456789''"
proof -
  have "k mod 10 < length ''0123456789''" by simp
  then show ?thesis unfolding digit_char_def by (rule nth_mem)
qed

lemma digits_chars: "set (digits n) \<subseteq> set ''0123456789''"
proof (induction n rule: digits.induct)
  case (1 n)
  show ?case
  proof (cases "n < 10")
    case True
    then show ?thesis using digit_char_digit [of n] by (simp add: digits_small)
  next
    case False
    then have "set (digits (n div 10)) \<subseteq> set ''0123456789''" using "1.IH" by simp
    then show ?thesis
      using False digit_char_digit [of "n mod 10"] by (simp add: digits_big)
  qed
qed

lemma length_digits: "0 < d \<Longrightarrow> n < 10 ^ d \<Longrightarrow> length (digits n) \<le> d"
proof (induction d arbitrary: n)
  case 0
  then show ?case by simp
next
  case (Suc d)
  show ?case
  proof (cases "n < 10")
    case True
    then show ?thesis by (simp add: digits_small)
  next
    case False
    then have d: "0 < d" using Suc.prems(2) by (cases d) auto
    have "n div 10 < 10 ^ d" using Suc.prems(2) by (simp add: less_mult_imp_div_less mult.commute)
    then have "length (digits (n div 10)) \<le> d" using Suc.IH d by blast
    then show ?thesis using False by (simp add: digits_big)
  qed
qed

lemma group3_chars: "set (group3 ds) \<subseteq> set ds \<union> {CHR '',''}"
proof (induction ds rule: group3.induct)
  case (1 ds)
  show ?case
  proof (cases "length ds \<le> 3")
    case True
    then show ?thesis by (auto simp add: group3_small)
  next
    case False
    then have ih: "set (group3 (take (length ds - 3) ds)) \<subseteq> set (take (length ds - 3) ds) \<union> {CHR '',''}"
      using "1.IH" by simp
    have t: "set (take (length ds - 3) ds) \<subseteq> set ds" by (rule set_take_subset)
    have dr: "set (drop (length ds - 3) ds) \<subseteq> set ds" by (rule set_drop_subset)
    from False have "group3 ds = group3 (take (length ds - 3) ds) @ '','' @ drop (length ds - 3) ds"
      by (simp add: group3_big)
    then show ?thesis using ih t dr by auto
  qed
qed

text \<open>Grouping only inserts commas: without them the digits are as before.\<close>

lemma group3_filter:
  "CHR '','' \<notin> set ds \<Longrightarrow> filter (\<lambda>c. c \<noteq> CHR '','') (group3 ds) = ds"
proof (induction ds rule: group3.induct)
  case (1 ds)
  show ?case
  proof (cases "length ds \<le> 3")
    case True
    then show ?thesis using "1.prems" by (auto simp add: group3_small filter_id_conv)
  next
    case False
    let ?k = "length ds - 3"
    have nt: "CHR '','' \<notin> set (take ?k ds)" using "1.prems" by (meson in_set_takeD)
    have nd: "CHR '','' \<notin> set (drop ?k ds)" using "1.prems" by (meson in_set_dropD)
    have ih: "filter (\<lambda>c. c \<noteq> CHR '','') (group3 (take ?k ds)) = take ?k ds"
      using "1.IH" False nt by simp
    have fd: "filter (\<lambda>c. c \<noteq> CHR '','') (drop ?k ds) = drop ?k ds"
      using nd by (auto simp add: filter_id_conv)
    from False have "group3 ds = group3 (take ?k ds) @ '','' @ drop ?k ds"
      by (simp add: group3_big)
    then show ?thesis by (simp add: ih fd)
  qed
qed

lemma digit_value_digit_char: "digit_value (digit_char k) = k mod 10"
proof -
  have "k mod 10 < 10" by simp
  then have "k mod 10 = 0 \<or> k mod 10 = 1 \<or> k mod 10 = 2 \<or> k mod 10 = 3 \<or> k mod 10 = 4
      \<or> k mod 10 = 5 \<or> k mod 10 = 6 \<or> k mod 10 = 7 \<or> k mod 10 = 8 \<or> k mod 10 = 9"
    by arith
  then show ?thesis by (auto simp add: digit_char_def digit_value_def)
qed

lemma decimal_snoc: "decimal (s @ [c]) = 10 * decimal s + digit_value c"
  by (simp add: decimal_def)

lemma decimal_digits: "decimal (digits n) = n"
proof (induction n rule: digits.induct)
  case (1 n)
  show ?case
  proof (cases "n < 10")
    case True
    then show ?thesis by (simp add: digits_small decimal_def digit_value_digit_char)
  next
    case False
    then have "decimal (digits (n div 10)) = n div 10" using "1.IH" by simp
    then show ?thesis using False by (simp add: digits_big decimal_snoc digit_value_digit_char)
  qed
qed

lemma decimal_zeros: "decimal (replicate k (CHR ''0'') @ s) = decimal s"
proof -
  have z: "foldl (\<lambda>v c. 10 * v + digit_value c) 0 (replicate k (CHR ''0'')) = 0"
    by (induction k) (simp_all add: digit_value_def)
  show ?thesis by (simp add: decimal_def z)
qed

lemma round_half_even_near: "\<bar>of_int (round_half_even x) - x\<bar> \<le> 1 / 2"
proof -
  have "of_int \<lfloor>x\<rfloor> \<le> x" "x < of_int \<lfloor>x\<rfloor> + 1" by linarith+
  then show ?thesis by (auto simp add: round_half_even_def Let_def)
qed

lemma round_half_even_nonneg: "0 \<le> x \<Longrightarrow> 0 \<le> round_half_even x"
proof -
  assume "0 \<le> x"
  then have "0 \<le> \<lfloor>x\<rfloor>" by simp
  then show ?thesis by (auto simp add: round_half_even_def Let_def)
qed

lemma float_round_nonneg: "0 \<le> x \<Longrightarrow> 0 \<le> float_round x"
proof -
  assume x: "0 \<le> x"
  define u where "u = max (1 / 2 ^ 1074) (ulp_of 2200 \<bar>x\<bar> 1)"
  have "(0::real) < 1 / 2 ^ 1074" by simp
  then have u: "0 < u" unfolding u_def by (rule less_max_iff_disj [THEN iffD2, OF disjI1])
  have "0 \<le> x / u" using x u by simp
  then have "0 \<le> round_half_even (x / u)" by (rule round_half_even_nonneg)
  then have "0 \<le> of_int (round_half_even (x / u)) * u" using u by simp
  then show ?thesis by (simp add: float_round_def Let_def u_def)
qed

lemma float_value_nonneg: "0 \<le> x \<Longrightarrow> 0 \<le> float_value (to_double x)"
  by (simp add: float_value_to_double float_round_nonneg)

text \<open>
  The text of a float that is not negative: the digits of a whole number (grouped in
  threes where the specification has a comma), and behind the point exactly \<open>d\<close>
  digits; the decimal number it shows is within half a unit of its last place of the
  float.
\<close>

lemma format_fixed_value:
  assumes "0 < d" and "0 \<le> float_value x"
  shows "\<exists>w f. format_fixed grouping d x = (if grouping then group3 w else w) @ ''.'' @ f
           \<and> set w \<subseteq> set ''0123456789'' \<and> length f = d \<and> set f \<subseteq> set ''0123456789''
           \<and> \<bar>real (decimal w) + real (decimal f) / 10 ^ d - float_value x\<bar>
               \<le> 1 / (2 * 10 ^ d)"
proof -
  define y where "y = float_value x"
  define n where "n = nat (round_half_even (y * 10 ^ d))"
  define w where "w = digits (n div 10 ^ d)"
  define f where "f = zero_pad d (digits (n mod 10 ^ d))"
  have y: "0 \<le> y" using assms(2) by (simp add: y_def)
  have eq: "format_fixed grouping d x = (if grouping then group3 w else w) @ ''.'' @ f"
    using assms(1) y by (simp add: format_fixed_def Let_def n_def w_def f_def y_def)
  have len: "length (digits (n mod 10 ^ d)) \<le> d"
    using assms(1) by (intro length_digits) simp_all
  then have lf: "length f = d" by (simp add: f_def zero_pad_def)
  have sf: "set f \<subseteq> set ''0123456789''"
    using digits_chars [of "n mod 10 ^ d"] by (auto simp add: f_def zero_pad_def)
  have sw: "set w \<subseteq> set ''0123456789''" unfolding w_def by (rule digits_chars)
  have "0 \<le> round_half_even (y * 10 ^ d)" using y by (intro round_half_even_nonneg) simp
  then have rn: "real n = of_int (round_half_even (y * 10 ^ d))" by (simp add: n_def)
  have near: "\<bar>real n - y * 10 ^ d\<bar> \<le> 1 / 2"
    using round_half_even_near [of "y * 10 ^ d"] by (simp add: rn)
  have dw: "decimal w = n div 10 ^ d" by (simp add: w_def decimal_digits)
  have df: "decimal f = n mod 10 ^ d" by (simp add: f_def zero_pad_def decimal_zeros decimal_digits)
  have "real (n div 10 ^ d * 10 ^ d + n mod 10 ^ d)
      = real (n div 10 ^ d) * 10 ^ d + real (n mod 10 ^ d)"
    by (simp only: of_nat_add of_nat_mult of_nat_power of_nat_numeral)
  then have "real n = real (n div 10 ^ d) * 10 ^ d + real (n mod 10 ^ d)"
    by (simp only: div_mult_mod_eq)
  then have sp: "real (n div 10 ^ d) + real (n mod 10 ^ d) / 10 ^ d = real n / 10 ^ d"
    by (simp add: field_simps)
  have "real n / 10 ^ d - y = (real n - y * 10 ^ d) / 10 ^ d" by (simp add: field_simps)
  then have "\<bar>real n / 10 ^ d - y\<bar> = \<bar>real n - y * 10 ^ d\<bar> / 10 ^ d" by simp
  also have "\<dots> \<le> (1 / 2) / 10 ^ d" by (rule divide_right_mono [OF near]) simp
  finally have "\<bar>real n / 10 ^ d - y\<bar> \<le> 1 / (2 * 10 ^ d)" by simp
  then have v: "\<bar>real (decimal w) + real (decimal f) / 10 ^ d - float_value x\<bar>
               \<le> 1 / (2 * 10 ^ d)"
    by (simp add: dw df sp y_def)
  from eq sw lf sf v show ?thesis by blast
qed

lemma format_fixed_whole:
  assumes "0 \<le> float_value x"
  shows "\<exists>w. format_fixed True 0 x = group3 w \<and> set w \<subseteq> set ''0123456789''
           \<and> \<bar>real (decimal w) - float_value x\<bar> \<le> 1 / 2"
proof -
  define y where "y = float_value x"
  define n where "n = nat (round_half_even y)"
  have y: "0 \<le> y" using assms by (simp add: y_def)
  have eq: "format_fixed True 0 x = group3 (digits n)"
    using y by (simp add: format_fixed_def Let_def n_def y_def)
  have "0 \<le> round_half_even y" using y by (rule round_half_even_nonneg)
  then have rn: "real n = of_int (round_half_even y)" by (simp add: n_def)
  have near: "\<bar>real n - y\<bar> \<le> 1 / 2" using round_half_even_near [of y] by (simp add: rn)
  have "\<bar>real (decimal (digits n)) - float_value x\<bar> \<le> 1 / 2"
    using near by (simp add: decimal_digits y_def)
  with eq digits_chars [of n] show ?thesis by blast
qed

text \<open>Whatever the sign: exactly \<open>d\<close> digits stand behind the one decimal point.\<close>

lemma format_fixed_places:
  assumes "0 < d"
  shows "\<exists>w f. format_fixed grouping d x = w @ ''.'' @ f \<and> length f = d
           \<and> set f \<subseteq> set ''0123456789'' \<and> CHR ''.'' \<notin> set w"
proof -
  define n where "n = nat (round_half_even (\<bar>float_value x\<bar> * 10 ^ d))"
  define whole where "whole = digits (n div 10 ^ d)"
  define w where "w = (if float_value x < 0 then ''-'' else [])
                        @ (if grouping then group3 whole else whole)"
  define f where "f = zero_pad d (digits (n mod 10 ^ d))"
  have eq: "format_fixed grouping d x = w @ ''.'' @ f"
    using assms by (simp add: format_fixed_def Let_def n_def whole_def w_def f_def)
  have len: "length (digits (n mod 10 ^ d)) \<le> d"
    using assms by (intro length_digits) simp_all
  then have lf: "length f = d" by (simp add: f_def zero_pad_def)
  have sf: "set f \<subseteq> set ''0123456789''"
    using digits_chars [of "n mod 10 ^ d"] by (auto simp add: f_def zero_pad_def)
  have wh: "CHR ''.'' \<notin> set whole" using digits_chars [of "n div 10 ^ d"] by (auto simp add: whole_def)
  then have "CHR ''.'' \<notin> set (group3 whole)" using group3_chars [of whole] by auto
  with wh have sw: "CHR ''.'' \<notin> set w" by (simp add: w_def)
  from eq lf sf sw show ?thesis by blast
qed

text \<open>
  The notional: from 1,000,000 in millions with two decimals and the suffix M, from
  1,000 in thousands with one decimal and the suffix K, below that in full.
\<close>

lemma amount_str_shape:
  "(1000000 \<le> float_value a \<longrightarrow>
      (\<exists>w f. amount_str a = ''$'' @ w @ ''.'' @ f @ ''M''
         \<and> set w \<subseteq> set ''0123456789'' \<and> length f = 2 \<and> set f \<subseteq> set ''0123456789''
         \<and> \<bar>real (decimal w) + real (decimal f) / 10 ^ 2
               - float_value (fdiv a (to_double 1000000))\<bar> \<le> 1 / (2 * 10 ^ 2)))
   \<and> (1000 \<le> float_value a \<and> float_value a < 1000000 \<longrightarrow>
      (\<exists>w f. amount_str a = ''$'' @ w @ ''.'' @ f @ ''K''
         \<and> set w \<subseteq> set ''0123456789'' \<and> length f = 1 \<and> set f \<subseteq> set ''0123456789''
         \<and> \<bar>real (decimal w) + real (decimal f) / 10 ^ 1
               - float_value (fdiv a (to_double 1000))\<bar> \<le> 1 / (2 * 10 ^ 1)))
   \<and> (0 \<le> float_value a \<and> float_value a < 1000 \<longrightarrow>
      (\<exists>w. amount_str a = ''$'' @ group3 w \<and> set w \<subseteq> set ''0123456789''
         \<and> \<bar>real (decimal w) - float_value a\<bar> \<le> 1 / 2))"
proof (intro conjI impI)
  assume a: "1000000 \<le> float_value a"
  have "0 \<le> float_value a / 1000000" using a by simp
  then have "0 \<le> float_value (fdiv a (to_double 1000000))"
    by (simp add: fdiv_def float_small_integers float_value_nonneg)
  from format_fixed_value [OF _ this, of 2 False] a
  show "\<exists>w f. amount_str a = ''$'' @ w @ ''.'' @ f @ ''M''
         \<and> set w \<subseteq> set ''0123456789'' \<and> length f = 2 \<and> set f \<subseteq> set ''0123456789''
         \<and> \<bar>real (decimal w) + real (decimal f) / 10 ^ 2
               - float_value (fdiv a (to_double 1000000))\<bar> \<le> 1 / (2 * 10 ^ 2)"
    by (simp add: amount_str_def)
next
  assume a: "1000 \<le> float_value a \<and> float_value a < 1000000"
  have "0 \<le> float_value a / 1000" using a by simp
  then have "0 \<le> float_value (fdiv a (to_double 1000))"
    by (simp add: fdiv_def float_small_integers float_value_nonneg)
  from format_fixed_value [OF _ this, of 1 False] a
  show "\<exists>w f. amount_str a = ''$'' @ w @ ''.'' @ f @ ''K''
         \<and> set w \<subseteq> set ''0123456789'' \<and> length f = 1 \<and> set f \<subseteq> set ''0123456789''
         \<and> \<bar>real (decimal w) + real (decimal f) / 10 ^ 1
               - float_value (fdiv a (to_double 1000))\<bar> \<le> 1 / (2 * 10 ^ 1)"
    by (simp add: amount_str_def)
next
  assume a: "0 \<le> float_value a \<and> float_value a < 1000"
  from format_fixed_whole [of a] a
  show "\<exists>w. amount_str a = ''$'' @ group3 w \<and> set w \<subseteq> set ''0123456789''
         \<and> \<bar>real (decimal w) - float_value a\<bar> \<le> 1 / 2"
    by (simp add: amount_str_def)
qed

lemma upper_char_not_lower: "upper_char c \<notin> set ''abcdefghijklmnopqrstuvwxyz''"
  by (simp add: upper_char_def split: option.splits)

lemma upper_shape:
  "length (upper s) = length s \<and> set (upper s) \<inter> set ''abcdefghijklmnopqrstuvwxyz'' = {}"
proof -
  have m: "x \<notin> set ''abcdefghijklmnopqrstuvwxyz''" if "x \<in> set (upper s)" for x
  proof -
    from that obtain c where "x = upper_char c" by (auto simp add: upper_def)
    then show ?thesis by (simp only: upper_char_not_lower not_False_eq_True)
  qed
  have d: "set (upper s) \<inter> set ''abcdefghijklmnopqrstuvwxyz'' = {}" using m by blast
  have l: "length (upper s) = length s" by (simp add: upper_def)
  from l d show ?thesis by (rule conjI)
qed

subsection \<open>The examples\<close>

lemma event_time_examples:
  "event_time clock0 trade_big = Some ''2023-11-14 22:13:20''"
  "event_time clock0 trade_small = Some ''2023-11-14 22:13:20''"
  "event_time clock0 trade_edge = Some ''2023-11-14 22:13:20''"
  "event_time clock0 trade_sell = Some ''2023-11-14 22:13:20''"
  "event_time clock0 trade_no_time = None"
  by (simp_all add: event_time_def clock0_def trade_big_def trade_small_def trade_edge_def
        trade_sell_def trade_no_time_def)

lemma render_big:
  "render_message spot_emoji ''SPOT'' ''BTCUSDT'' [CHR 0xE2, CHR 0x82, CHR 0xBF] buy_label
     ''$1.25M'' (to_double 50000) (to_double 25) ''2023-11-14 22:13:20'' = alert_big"
  by (simp add: render_message_def spot_emoji_def buy_label_def amount_label_def
        price_label_def quantity_label_def time_label_def link_open_def link_close_def
        alert_big_def price_big quantity_big)

lemma format_big:
  "format_trade_message clock0 trade_big ''SPOT'' ''btcusdt'' m
     = Inr (render_message spot_emoji ''SPOT'' ''BTCUSDT'' (get_asset_emoji m ''btcusdt'')
              buy_label ''$1.25M'' (to_double 50000) (to_double 25) ''2023-11-14 22:13:20'')"
  using format_trade_message_decoded
          [of trade_big 50000 25 clock0 "''2023-11-14 22:13:20''" "''SPOT''" "''btcusdt''" m]
        amount_big
  by (simp add: trade_big_def event_time_def clock0_def upper_btcusdt)

lemma float_sell:
  "float_value (to_double 0.00725) = 8358680908399641 / 1152921504606846976"
  "float_value (to_double 1000000.5) = 2000001 / 2"
  by (simp_all add: float_eval)

lemma float_product_sell:
  "float_value (fmul (to_double 0.00725) (to_double 1000000.5))
     = 7971463287105651 / 1099511627776"
  unfolding fmul_def float_sell by (simp add: float_eval)

lemma price_sell: "format_fixed True 4 (to_double 0.00725) = ''0.0073''"
  unfolding format_fixed_def float_sell by (simp add: fmt_eval)

lemma quantity_sell: "format_fixed False 6 (to_double 1000000.5) = ''1000000.500000''"
  unfolding format_fixed_def float_sell by (simp add: fmt_eval)

lemma amount_sell: "amount_str (fmul (to_double 0.00725) (to_double 1000000.5)) = ''$7.3K''"
proof -
  have q: "float_value (fdiv (fmul (to_double 0.00725) (to_double 1000000.5)) (to_double 1000))
      = 8162778405996187 / 1125899906842624"
    unfolding fdiv_def float_value_to_double float_product_sell float_small_integers
    by (simp add: float_eval)
  show ?thesis
    unfolding amount_str_def format_fixed_def q float_product_sell by (simp add: fmt_eval)
qed

lemma render_sell:
  "render_message futures_emoji ''FUTURES'' ''DOGEUSDT'' [CHR 0xF0, CHR 0x9F, CHR 0x90, CHR 0x95]
     sell_label ''$7.3K'' (to_double 0.00725) (to_double 1000000.5) ''2023-11-14 22:13:20''
     = alert_sell"
  using price_sell quantity_sell
  by (simp add: render_message_def futures_emoji_def sell_label_def amount_label_def
        price_label_def quantity_label_def time_label_def link_open_def link_close_def
        alert_sell_def)

lemma format_sell:
  "format_trade_message clock0 trade_sell ''FUTURES'' ''dogeusdt'' m
     = Inr (render_message futures_emoji ''FUTURES'' ''DOGEUSDT'' (get_asset_emoji m ''dogeusdt'')
              sell_label ''$7.3K'' (to_double 0.00725) (to_double 1000000.5)
              ''2023-11-14 22:13:20'')"
  using format_trade_message_decoded
          [of trade_sell "0.00725" "1000000.5" clock0 "''2023-11-14 22:13:20''" "''FUTURES''"
              "''dogeusdt''" m]
        amount_sell
  by (simp add: trade_sell_def event_time_def clock0_def upper_dogeusdt)

text \<open>
  The notionals 1,015,000 and 1,150 and the price 0.00725: the floats 1.015, 1.15 and
  0.00725 lie below, below and above the decimal numbers they are written as.
\<close>

lemma format_examples:
  "amount_str (to_double 1015000) = ''$1.01M''"
  "amount_str (to_double 1150) = ''$1.1K''"
  "amount_str (to_double 999) = ''$999''"
  "format_fixed True 4 (to_double 0.00725) = ''0.0073''"
proof -
  have a: "float_value (to_double 1015000) = 1015000" "float_value (to_double 1150) = 1150"
    "float_value (to_double 999) = 999"
    by (simp_all add: float_eval)
  have q1: "float_value (fdiv (to_double 1015000) (to_double 1000000))
      = 4571153621781053 / 4503599627370496"
    by (simp add: fdiv_def a float_small_integers) (simp add: float_eval)
  have q2: "float_value (fdiv (to_double 1150) (to_double 1000))
      = 2589569785738035 / 2251799813685248"
    by (simp add: fdiv_def a float_small_integers) (simp add: float_eval)
  show "amount_str (to_double 1015000) = ''$1.01M''"
    by (simp add: amount_str_def a) (simp add: format_fixed_def q1, simp add: fmt_eval)
  show "amount_str (to_double 1150) = ''$1.1K''"
    by (simp add: amount_str_def a) (simp add: format_fixed_def q2, simp add: fmt_eval)
  show "amount_str (to_double 999) = ''$999''"
    by (simp add: amount_str_def a) (simp add: format_fixed_def a, simp add: fmt_eval)
  show "format_fixed True 4 (to_double 0.00725) = ''0.0073''" by (rule price_sell)
qed

text \<open>A broadcast from the handler of the example monitor, every delivery succeeding.\<close>

lemma broadcast_counted:
  "broadcasts (state_after (send_telegram_notification env_ok alert
       (count_trade market_type symbol monitor0))) = [alert]"
  "posts (state_after (send_telegram_notification env_ok alert
       (count_trade market_type symbol monitor0))) = [(101, alert), (102, alert)]"
proof -
  let ?m1 = "count_trade market_type symbol monitor0"
  have k: "undisturbed env_ok = env_ok" by (simp add: undisturbed_def env_ok_def)
  have u: "subscribed_users ?m1 = [101, 102]" "posts ?m1 = []" "broadcasts ?m1 = []"
    by (simp_all add: count_trade_def Let_def monitor0_fields)
  have a: "fst (can_send_notification (admit_time env_ok) ?m1)"
    by (simp add: can_send_fst pruned_def count_trade_def Let_def monitor0_fields
          max_per_minute_def monitor0_def BinanceMultiMonitor_def load_subscribers_def
          saved_file_def config_py_def)
  show "broadcasts (state_after (send_telegram_notification env_ok alert ?m1)) = [alert]"
    using send_undisturbed_frame(4) [of env_ok alert ?m1] unfolding k by (simp add: u)
  show "posts (state_after (send_telegram_notification env_ok alert ?m1))
      = [(101, alert), (102, alert)]"
    using send_undisturbed [of env_ok alert ?m1] a unfolding k
    by (simp add: state_after_def finish_pass_frame u)
qed

lemma scenario_big:
  "format_trade_message clock0 trade_big ''SPOT'' ''btcusdt'' monitor0 = Inr alert_big
   \<and> broadcasts (handle_trade clock0 env_ok (Object trade_big) ''SPOT'' ''btcusdt'' monitor0)
       = [alert_big]
   \<and> posts (handle_trade clock0 env_ok (Object trade_big) ''SPOT'' ''btcusdt'' monitor0)
       = [(101, alert_big), (102, alert_big)]"
proof -
  let ?m1 = "count_trade ''SPOT'' ''btcusdt'' monitor0"
  have f0: "format_trade_message clock0 trade_big ''SPOT'' ''btcusdt'' monitor0 = Inr alert_big"
    by (simp add: format_big emoji_btcusdt render_big)
  have f1: "format_trade_message clock0 trade_big ''SPOT'' ''btcusdt'' ?m1 = Inr alert_big"
    by (simp add: format_big count_trade_emoji emoji_btcusdt render_big)
  have h: "handle_trade clock0 env_ok (Object trade_big) ''SPOT'' ''btcusdt'' monitor0 =
      state_after (send_telegram_notification env_ok alert_big ?m1)"
    using handle_trade_above
            [where d = trade_big and p = 50000 and q = 25 and m = monitor0
               and local_time = clock0 and market_type = "''SPOT''" and symbol = "''btcusdt''"
               and alert = alert_big and env = env_ok]
          f1
    by (simp add: trade_big_def monitor0_fields(9) float_product_big)
  from f0 show ?thesis unfolding h by (simp add: broadcast_counted)
qed

lemma scenario_sell:
  "format_trade_message clock0 trade_sell ''FUTURES'' ''dogeusdt'' monitor0 = Inr alert_sell"
  by (simp only: format_sell emoji_dogeusdt render_sell)

subsection \<open>Counting and the threshold\<close>

text \<open>
  C4, as the code has it. A message whose price and quantity decode is counted exactly
  once, in the global
  counter and in the counter of the market for the symbol, whatever its notional. With
  the notional the code computes, the product of the two floats rounded to the nearest
  double, and with no other task disturbing the broadcast:
  \<^verbatim>\<open>send_telegram_notification\<close> is called exactly once, with the formatted alert, when
  the notional is at least the configured minimum and the message has an event time
  that can be rendered; in every other case it is not called and no request is issued.
  A trade at or above the threshold without an event time is counted and then dropped:
  \<^verbatim>\<open>format_trade_message\<close> raises and the handler catches and logs the exception.
\<close>

theorem handle_trade_threshold:
  assumes "tr_p d = Val p" and "tr_q d = Val q"
  shows "total_trades (handle_trade local_time (undisturbed env) (Object d) market_type symbol m)
       = total_trades m + 1
    \<and> spot_trades (handle_trade local_time (undisturbed env) (Object d) market_type symbol m)
       = (if market_type = ''SPOT'' then (spot_trades m)(symbol := spot_trades m symbol + 1)
          else spot_trades m)
    \<and> futures_trades (handle_trade local_time (undisturbed env) (Object d) market_type symbol m)
       = (if market_type = ''SPOT'' then futures_trades m
          else (futures_trades m)(symbol := futures_trades m symbol + 1))
    \<and> (if min_amount m \<le> float_value (fmul (to_double p) (to_double q))
           \<and> event_time local_time d \<noteq> None
        then \<exists>alert.
               format_trade_message local_time d market_type symbol
                 (count_trade market_type symbol m) = Inr alert
             \<and> broadcasts (handle_trade local_time (undisturbed env) (Object d) market_type symbol m)
                 = broadcasts m @ [alert]
        else broadcasts (handle_trade local_time (undisturbed env) (Object d) market_type symbol m)
               = broadcasts m
           \<and> posts (handle_trade local_time (undisturbed env) (Object d) market_type symbol m)
               = posts m)"
proof -
  let ?m1 = "count_trade market_type symbol m"
  let ?h = "handle_trade local_time (undisturbed env) (Object d) market_type symbol m"
  consider
      (sent) "min_amount m \<le> float_value (fmul (to_double p) (to_double q))"
        "event_time local_time d \<noteq> None"
    | (dropped) "min_amount m \<le> float_value (fmul (to_double p) (to_double q))"
        "event_time local_time d = None"
    | (below) "\<not> min_amount m \<le> float_value (fmul (to_double p) (to_double q))"
    by blast
  then show ?thesis
  proof cases
    case sent
    then obtain stamp where st: "event_time local_time d = Some stamp" by blast
    obtain alert where f: "format_trade_message local_time d market_type symbol ?m1 = Inr alert"
      using format_trade_message_decoded [OF assms st] by blast
    have h: "?h = state_after (send_telegram_notification (undisturbed env) alert ?m1)"
      using assms sent(1) f by (rule handle_trade_above)
    show ?thesis
      unfolding h using sent f by (simp add: send_undisturbed_frame count_trade_fields)
  next
    case dropped
    obtain e where f: "format_trade_message local_time d market_type symbol ?m1 = Inl e"
      using format_trade_message_no_time [OF dropped(2)] by blast
    have h: "?h = ?m1" using assms f by (rule handle_trade_unformatted)
    show ?thesis unfolding h using dropped by (simp add: count_trade_fields)
  next
    case below
    have h: "?h = ?m1" using assms below by (rule handle_trade_below)
    show ?thesis unfolding h using below by (simp add: count_trade_fields)
  qed
qed

text \<open>
  The trade of 50000.00 times 25.0 is counted and broadcast; the trade of notional
  999,999 is counted and not broadcast.
\<close>

theorem handle_trade_threshold_witness:
  "tr_p trade_big = Val 50000 \<and> tr_q trade_big = Val 25
   \<and> min_amount monitor0 \<le> float_value (fmul (to_double 50000) (to_double 25))
   \<and> event_time clock0 trade_big \<noteq> None
   \<and> total_trades (handle_trade clock0 (undisturbed env_ok) (Object trade_big)
         ''SPOT'' ''btcusdt'' monitor0) = 1
   \<and> spot_trades (handle_trade clock0 (undisturbed env_ok) (Object trade_big)
         ''SPOT'' ''btcusdt'' monitor0) ''btcusdt'' = 1
   \<and> broadcasts (handle_trade clock0 (undisturbed env_ok) (Object trade_big)
         ''SPOT'' ''btcusdt'' monitor0) = [alert_big]
   \<and> tr_p trade_small = Val 999999 \<and> tr_q trade_small = Val 1
   \<and> \<not> min_amount monitor0 \<le> float_value (fmul (to_double 999999) (to_double 1))
   \<and> total_trades (handle_trade clock0 (undisturbed env_ok) (Object trade_small)
         ''SPOT'' ''btcusdt'' monitor0) = 1
   \<and> spot_trades (handle_trade clock0 (undisturbed env_ok) (Object trade_small)
         ''SPOT'' ''btcusdt'' monitor0) ''btcusdt'' = 1
   \<and> broadcasts (handle_trade clock0 (undisturbed env_ok) (Object trade_small)
         ''SPOT'' ''btcusdt'' monitor0) = []
   \<and> posts (handle_trade clock0 (undisturbed env_ok) (Object trade_small)
         ''SPOT'' ''btcusdt'' monitor0) = []"
proof -
  have b: "tr_p trade_big = Val 50000" "tr_q trade_big = Val 25"
    by (simp_all add: trade_big_def)
  have s: "tr_p trade_small = Val 999999" "tr_q trade_small = Val 1"
    by (simp_all add: trade_small_def)
  have z: "spot_trades monitor0 ''btcusdt'' = 0"
    by (simp add: monitor0_def BinanceMultiMonitor_def load_subscribers_def saved_file_def)
  have f: "format_trade_message clock0 trade_big ''SPOT'' ''btcusdt''
      (count_trade ''SPOT'' ''btcusdt'' monitor0) = Inr alert_big"
    by (simp add: format_big count_trade_emoji emoji_btcusdt render_big)
  show ?thesis
    using handle_trade_threshold
            [where d = trade_big and p = 50000 and q = 25 and local_time = clock0
               and m = monitor0 and env = env_ok and market_type = "''SPOT''"
               and symbol = "''btcusdt''"]
          handle_trade_threshold
            [where d = trade_small and p = 999999 and q = 1 and local_time = clock0
               and m = monitor0 and env = env_ok and market_type = "''SPOT''"
               and symbol = "''btcusdt''"]
          f
    by (simp add: b s z monitor0_fields float_product_big float_product_small
          event_time_examples)
qed

text \<open>
  The claim as stated fails. The first trade without its event time decodes, reaches
  the threshold and is counted, yet nothing is broadcast. And the trade at 111111.11
  for 9.00000009, whose notional as a product of decimal numbers is below 1,000,000, is
  broadcast to both subscribers: the product of the floats is 1,000,000.
\<close>

theorem handle_trade_threshold_counterexample:
  "tr_p trade_no_time = Val 50000 \<and> tr_q trade_no_time = Val 25
   \<and> min_amount monitor0 \<le> float_value (fmul (to_double 50000) (to_double 25))
   \<and> total_trades (handle_trade clock0 env_ok (Object trade_no_time) ''SPOT'' ''btcusdt'' monitor0)
       = 1
   \<and> spot_trades (handle_trade clock0 env_ok (Object trade_no_time) ''SPOT'' ''btcusdt'' monitor0)
        ''btcusdt'' = 1
   \<and> broadcasts (handle_trade clock0 env_ok (Object trade_no_time) ''SPOT'' ''btcusdt'' monitor0)
       = []
   \<and> posts (handle_trade clock0 env_ok (Object trade_no_time) ''SPOT'' ''btcusdt'' monitor0)
       = []
   \<and> tr_p trade_edge = Val 111111.11 \<and> tr_q trade_edge = Val 9.00000009
   \<and> 111111.11 * 9.00000009 < min_amount monitor0
   \<and> length (broadcasts
        (handle_trade clock0 env_ok (Object trade_edge) ''SPOT'' ''btcusdt'' monitor0)) = 1
   \<and> length (posts
        (handle_trade clock0 env_ok (Object trade_edge) ''SPOT'' ''btcusdt'' monitor0)) = 2"
proof -
  let ?m1 = "count_trade ''SPOT'' ''btcusdt'' monitor0"
  have n: "tr_p trade_no_time = Val 50000" "tr_q trade_no_time = Val 25"
    by (simp_all add: trade_no_time_def)
  have e: "tr_p trade_edge = Val 111111.11" "tr_q trade_edge = Val 9.00000009"
    by (simp_all add: trade_edge_def)
  have z: "spot_trades monitor0 ''btcusdt'' = 0"
    by (simp add: monitor0_def BinanceMultiMonitor_def load_subscribers_def saved_file_def)
  have a: "min_amount monitor0 \<le> float_value (fmul (to_double 50000) (to_double 25))"
    by (simp add: monitor0_fields(9) float_product_big)
  obtain err where "format_trade_message clock0 trade_no_time ''SPOT'' ''btcusdt'' ?m1 = Inl err"
    using format_trade_message_no_time [OF event_time_examples(5)] by blast
  with n have h: "handle_trade clock0 env_ok (Object trade_no_time) ''SPOT'' ''btcusdt'' monitor0
      = ?m1"
    by (rule handle_trade_unformatted)
  have below: "111111.11 * 9.00000009 < min_amount monitor0"
    by (simp add: monitor0_fields(9))
  have above: "min_amount monitor0
      \<le> float_value (fmul (to_double 111111.11) (to_double 9.00000009))"
    unfolding float_product_edge by (simp add: monitor0_fields(9))
  obtain alert where "format_trade_message clock0 trade_edge ''SPOT'' ''btcusdt'' ?m1 = Inr alert"
    using format_trade_message_decoded [OF e event_time_examples(3)] by blast
  with e above
  have g: "handle_trade clock0 env_ok (Object trade_edge) ''SPOT'' ''btcusdt'' monitor0
      = state_after (send_telegram_notification env_ok alert ?m1)"
    by (rule handle_trade_above)
  have c: "total_trades ?m1 = 1" "spot_trades ?m1 ''btcusdt'' = 1" "broadcasts ?m1 = []"
    "posts ?m1 = []"
    by (simp_all add: count_trade_fields monitor0_fields z)
  from n a e below show ?thesis
    unfolding h g broadcast_counted c by simp
qed

subsection \<open>The alert text\<close>

text \<open>
  C5. For a trade that decodes, the alert is this text: the emoji of the market, the
  market and the upper-cased symbol, the emoji of the asset; the direction (sale when
  the buyer is the maker, purchase when it is not or the flag is absent); the notional;
  the price after a dollar sign; the quantity; the event time; and the link to the
  trading page of the upper-cased symbol. The notional is shown in millions with
  exactly two decimals and the suffix M from 1,000,000, in thousands with exactly one
  decimal and the suffix K from 1,000, and as a whole number below that. The price is
  shown with exactly four and the quantity with exactly six digits behind the decimal
  point. Each number shown is the float rounded to that many places: it is within half
  a unit of the last place shown of the float. No lower-case letter stays in the symbol.

  In the scenario (threshold 1,000,000; price 50000.00, quantity 25.0 on the spot feed
  of \<^verbatim>\<open>btcusdt\<close>, the buyer not the maker) the handler broadcasts exactly one alert, the
  text \<open>alert_big\<close> with the notional \<^verbatim>\<open>$1.25M\<close> and the label of a purchase, to both
  subscribers. A sale of 1000000.5 at 0.00725 on the futures feed of \<^verbatim>\<open>dogeusdt\<close>
  gives the text \<open>alert_sell\<close>, with \<^verbatim>\<open>$7.3K\<close> and \<^verbatim>\<open>$0.0073\<close>.
\<close>

theorem alert_text:
  assumes "tr_p d = Val p" and "tr_q d = Val q" and "event_time local_time d = Some stamp"
  shows "format_trade_message local_time d market_type symbol m =
       Inr ((if market_type = ''SPOT'' then spot_emoji else futures_emoji)
            @ '' <b>'' @ market_type @ '' '' @ upper symbol @ ''</b> ''
            @ get_asset_emoji m symbol @ [CHR 0x0A, CHR 0x0A]
            @ (if tr_m d = Some True then sell_label else buy_label) @ [CHR 0x0A]
            @ amount_label @ amount_str (fmul (to_double p) (to_double q))
            @ ''</b>'' @ [CHR 0x0A]
            @ price_label @ format_fixed True 4 (to_double p) @ ''</b>'' @ [CHR 0x0A]
            @ quantity_label @ format_fixed False 6 (to_double q) @ ''</b>'' @ [CHR 0x0A]
            @ time_label @ stamp @ ''</b>'' @ [CHR 0x0A, CHR 0x0A]
            @ link_open @ upper symbol @ link_close)
    \<and> (1000000 \<le> float_value (fmul (to_double p) (to_double q)) \<longrightarrow>
        (\<exists>w f. amount_str (fmul (to_double p) (to_double q)) = ''$'' @ w @ ''.'' @ f @ ''M''
           \<and> set w \<subseteq> set ''0123456789'' \<and> length f = 2 \<and> set f \<subseteq> set ''0123456789''
           \<and> \<bar>real (decimal w) + real (decimal f) / 10 ^ 2
                 - float_value (fdiv (fmul (to_double p) (to_double q)) (to_double 1000000))\<bar>
               \<le> 1 / (2 * 10 ^ 2)))
    \<and> (1000 \<le> float_value (fmul (to_double p) (to_double q))
         \<and> float_value (fmul (to_double p) (to_double q)) < 1000000 \<longrightarrow>
        (\<exists>w f. amount_str (fmul (to_double p) (to_double q)) = ''$'' @ w @ ''.'' @ f @ ''K''
           \<and> set w \<subseteq> set ''0123456789'' \<and> length f = 1 \<and> set f \<subseteq> set ''0123456789''
           \<and> \<bar>real (decimal w) + real (decimal f) / 10 ^ 1
                 - float_value (fdiv (fmul (to_double p) (to_double q)) (to_double 1000))\<bar>
               \<le> 1 / (2 * 10 ^ 1)))
    \<and> (0 \<le> float_value (fmul (to_double p) (to_double q))
         \<and> float_value (fmul (to_double p) (to_double q)) < 1000 \<longrightarrow>
        (\<exists>w. amount_str (fmul (to_double p) (to_double q)) = ''$'' @ group3 w
           \<and> set w \<subseteq> set ''0123456789''
           \<and> \<bar>real (decimal w) - float_value (fmul (to_double p) (to_double q))\<bar> \<le> 1 / 2))
    \<and> (\<exists>w f. format_fixed True 4 (to_double p) = w @ ''.'' @ f \<and> length f = 4
           \<and> set f \<subseteq> set ''0123456789'' \<and> CHR ''.'' \<notin> set w)
    \<and> (0 \<le> p \<longrightarrow>
        (\<exists>w f. format_fixed True 4 (to_double p) = group3 w @ ''.'' @ f
           \<and> set w \<subseteq> set ''0123456789'' \<and> length f = 4 \<and> set f \<subseteq> set ''0123456789''
           \<and> \<bar>real (decimal w) + real (decimal f) / 10 ^ 4 - float_value (to_double p)\<bar>
               \<le> 1 / (2 * 10 ^ 4)))
    \<and> (\<exists>w f. format_fixed False 6 (to_double q) = w @ ''.'' @ f \<and> length f = 6
           \<and> set f \<subseteq> set ''0123456789'' \<and> CHR ''.'' \<notin> set w)
    \<and> (0 \<le> q \<longrightarrow>
        (\<exists>w f. format_fixed False 6 (to_double q) = w @ ''.'' @ f
           \<and> set w \<subseteq> set ''0123456789'' \<and> length f = 6 \<and> set f \<subseteq> set ''0123456789''
           \<and> \<bar>real (decimal w) + real (decimal f) / 10 ^ 6 - float_value (to_double q)\<bar>
               \<le> 1 / (2 * 10 ^ 6)))
    \<and> length (upper symbol) = length symbol
    \<and> set (upper symbol) \<inter> set ''abcdefghijklmnopqrstuvwxyz'' = {}
    \<and> format_trade_message clock0 trade_big ''SPOT'' ''btcusdt'' monitor0 = Inr alert_big
    \<and> broadcasts (handle_trade clock0 env_ok (Object trade_big) ''SPOT'' ''btcusdt'' monitor0)
        = [alert_big]
    \<and> posts (handle_trade clock0 env_ok (Object trade_big) ''SPOT'' ''btcusdt'' monitor0)
        = [(101, alert_big), (102, alert_big)]
    \<and> format_trade_message clock0 trade_sell ''FUTURES'' ''dogeusdt'' monitor0 = Inr alert_sell"
proof -
  let ?a = "fmul (to_double p) (to_double q)"
  have t: "format_trade_message local_time d market_type symbol m =
       Inr ((if market_type = ''SPOT'' then spot_emoji else futures_emoji)
            @ '' <b>'' @ market_type @ '' '' @ upper symbol @ ''</b> ''
            @ get_asset_emoji m symbol @ [CHR 0x0A, CHR 0x0A]
            @ (if tr_m d = Some True then sell_label else buy_label) @ [CHR 0x0A]
            @ amount_label @ amount_str ?a @ ''</b>'' @ [CHR 0x0A]
            @ price_label @ format_fixed True 4 (to_double p) @ ''</b>'' @ [CHR 0x0A]
            @ quantity_label @ format_fixed False 6 (to_double q) @ ''</b>'' @ [CHR 0x0A]
            @ time_label @ stamp @ ''</b>'' @ [CHR 0x0A, CHR 0x0A]
            @ link_open @ upper symbol @ link_close)"
    unfolding format_trade_message_decoded [OF assms] render_message_def by simp
  note a = amount_str_shape [of ?a]
  have p4: "\<exists>w f. format_fixed True 4 (to_double p) = w @ ''.'' @ f \<and> length f = 4
           \<and> set f \<subseteq> set ''0123456789'' \<and> CHR ''.'' \<notin> set w"
    by (rule format_fixed_places) simp
  have p6: "\<exists>w f. format_fixed False 6 (to_double q) = w @ ''.'' @ f \<and> length f = 6
           \<and> set f \<subseteq> set ''0123456789'' \<and> CHR ''.'' \<notin> set w"
    by (rule format_fixed_places) simp
  have v4: "\<exists>w f. format_fixed True 4 (to_double p) = group3 w @ ''.'' @ f
           \<and> set w \<subseteq> set ''0123456789'' \<and> length f = 4 \<and> set f \<subseteq> set ''0123456789''
           \<and> \<bar>real (decimal w) + real (decimal f) / 10 ^ 4 - float_value (to_double p)\<bar>
               \<le> 1 / (2 * 10 ^ 4)"
    if "0 \<le> p"
    using format_fixed_value [of 4 "to_double p" True] float_value_nonneg [OF that] by simp
  have v6: "\<exists>w f. format_fixed False 6 (to_double q) = w @ ''.'' @ f
           \<and> set w \<subseteq> set ''0123456789'' \<and> length f = 6 \<and> set f \<subseteq> set ''0123456789''
           \<and> \<bar>real (decimal w) + real (decimal f) / 10 ^ 6 - float_value (to_double q)\<bar>
               \<le> 1 / (2 * 10 ^ 6)"
    if "0 \<le> q"
    using format_fixed_value [of 6 "to_double q" False] float_value_nonneg [OF that] by simp
  note u = upper_shape [of symbol]
  note sb = scenario_big
  note ss = scenario_sell
  show ?thesis
    apply (intro conjI impI)
    subgoal by (rule t)
    subgoal using a by blast
    subgoal using a by blast
    subgoal using a by blast
    subgoal by (rule p4)
    subgoal by (rule v4)
    subgoal by (rule p6)
    subgoal by (rule v6)
    subgoal using u by (rule conjunct1)
    subgoal using u by (rule conjunct2)
    subgoal using sb by blast
    subgoal using sb by blast
    subgoal using sb by blast
    subgoal by (rule ss)
    done
qed

text \<open>
  The two examples: instantiated at the purchase on the spot feed and at the sale on
  the futures feed, the general text is \<open>alert_big\<close> and \<open>alert_sell\<close>.
\<close>

theorem alert_text_witness:
  "tr_p trade_big = Val 50000 \<and> tr_q trade_big = Val 25
   \<and> event_time clock0 trade_big = Some ''2023-11-14 22:13:20''
   \<and> tr_m trade_big \<noteq> Some True
   \<and> 1000000 \<le> float_value (fmul (to_double 50000) (to_double 25))
   \<and> amount_str (fmul (to_double 50000) (to_double 25)) = ''$1.25M''
   \<and> format_fixed True 4 (to_double 50000) = ''50,000.0000''
   \<and> format_fixed False 6 (to_double 25) = ''25.000000''
   \<and> format_trade_message clock0 trade_big ''SPOT'' ''btcusdt'' monitor0
       = Inr (spot_emoji @ '' <b>SPOT BTCUSDT</b> '' @ [CHR 0xE2, CHR 0x82, CHR 0xBF]
              @ [CHR 0x0A, CHR 0x0A] @ buy_label @ [CHR 0x0A]
              @ amount_label @ ''$1.25M</b>'' @ [CHR 0x0A]
              @ price_label @ ''50,000.0000</b>'' @ [CHR 0x0A]
              @ quantity_label @ ''25.000000</b>'' @ [CHR 0x0A]
              @ time_label @ ''2023-11-14 22:13:20</b>'' @ [CHR 0x0A, CHR 0x0A]
              @ link_open @ ''BTCUSDT'' @ link_close)
   \<and> tr_p trade_sell = Val 0.00725 \<and> tr_q trade_sell = Val 1000000.5
   \<and> event_time clock0 trade_sell = Some ''2023-11-14 22:13:20''
   \<and> tr_m trade_sell = Some True
   \<and> 1000 \<le> float_value (fmul (to_double 0.00725) (to_double 1000000.5))
   \<and> float_value (fmul (to_double 0.00725) (to_double 1000000.5)) < 1000000
   \<and> amount_str (fmul (to_double 0.00725) (to_double 1000000.5)) = ''$7.3K''
   \<and> format_fixed True 4 (to_double 0.00725) = ''0.0073''
   \<and> format_fixed False 6 (to_double 1000000.5) = ''1000000.500000''
   \<and> format_trade_message clock0 trade_sell ''FUTURES'' ''dogeusdt'' monitor0
       = Inr (futures_emoji @ '' <b>FUTURES DOGEUSDT</b> ''
              @ [CHR 0xF0, CHR 0x9F, CHR 0x90, CHR 0x95]
              @ [CHR 0x0A, CHR 0x0A] @ sell_label @ [CHR 0x0A]
              @ amount_label @ ''$7.3K</b>'' @ [CHR 0x0A]
              @ price_label @ ''0.0073</b>'' @ [CHR 0x0A]
              @ quantity_label @ ''1000000.500000</b>'' @ [CHR 0x0A]
              @ time_label @ ''2023-11-14 22:13:20</b>'' @ [CHR 0x0A, CHR 0x0A]
              @ link_open @ ''DOGEUSDT'' @ link_close)"
proof -
  have b: "tr_p trade_big = Val 50000" "tr_q trade_big = Val 25" "tr_m trade_big \<noteq> Some True"
    by (simp_all add: trade_big_def)
  have s: "tr_p trade_sell = Val 0.00725" "tr_q trade_sell = Val 1000000.5"
    "tr_m trade_sell = Some True"
    by (simp_all add: trade_sell_def)
  have r: "1000 \<le> float_value (fmul (to_double 0.00725) (to_double 1000000.5))"
    "float_value (fmul (to_double 0.00725) (to_double 1000000.5)) < 1000000"
    unfolding float_product_sell by simp_all
  have g: "1000000 \<le> float_value (fmul (to_double 50000) (to_double 25))"
    by (simp add: float_product_big)
  note tb = alert_text
            [where d = trade_big and p = 50000 and q = 25 and local_time = clock0
               and stamp = "''2023-11-14 22:13:20''" and m = monitor0
               and market_type = "''SPOT''" and symbol = "''btcusdt''",
             OF b(1,2) event_time_examples(1), THEN conjunct1]
  note ts = alert_text
            [where d = trade_sell and p = "0.00725" and q = "1000000.5" and local_time = clock0
               and stamp = "''2023-11-14 22:13:20''" and m = monitor0
               and market_type = "''FUTURES''" and symbol = "''dogeusdt''",
             OF s(1,2) event_time_examples(4), THEN conjunct1]
  have fb: "format_trade_message clock0 trade_big ''SPOT'' ''btcusdt'' monitor0
       = Inr (spot_emoji @ '' <b>SPOT BTCUSDT</b> '' @ [CHR 0xE2, CHR 0x82, CHR 0xBF]
              @ [CHR 0x0A, CHR 0x0A] @ buy_label @ [CHR 0x0A]
              @ amount_label @ ''$1.25M</b>'' @ [CHR 0x0A]
              @ price_label @ ''50,000.0000</b>'' @ [CHR 0x0A]
              @ quantity_label @ ''25.000000</b>'' @ [CHR 0x0A]
              @ time_label @ ''2023-11-14 22:13:20</b>'' @ [CHR 0x0A, CHR 0x0A]
              @ link_open @ ''BTCUSDT'' @ link_close)"
    unfolding tb amount_big price_big quantity_big upper_btcusdt emoji_btcusdt
    using b(3) by simp
  have fs: "format_trade_message clock0 trade_sell ''FUTURES'' ''dogeusdt'' monitor0
       = Inr (futures_emoji @ '' <b>FUTURES DOGEUSDT</b> ''
              @ [CHR 0xF0, CHR 0x9F, CHR 0x90, CHR 0x95]
              @ [CHR 0x0A, CHR 0x0A] @ sell_label @ [CHR 0x0A]
              @ amount_label @ ''$7.3K</b>'' @ [CHR 0x0A]
              @ price_label @ ''0.0073</b>'' @ [CHR 0x0A]
              @ quantity_label @ ''1000000.500000</b>'' @ [CHR 0x0A]
              @ time_label @ ''2023-11-14 22:13:20</b>'' @ [CHR 0x0A, CHR 0x0A]
              @ link_open @ ''DOGEUSDT'' @ link_close)"
    unfolding ts amount_sell price_sell quantity_sell upper_dogeusdt emoji_dogeusdt
    using s(3) by simp
  from b s r g event_time_examples(1,4) amount_big price_big quantity_big amount_sell
    price_sell quantity_sell fb fs
  show ?thesis by (intro conjI)
qed

section \<open>Properties of the feed connection handler\<close>

lemma sleeps_handler:
  "sleeps (websocket_handler local_time symbol market_type conns f) =
     sleeps f @ replicate (length (filter failed conns)) 5"
proof (induction conns arbitrary: f)
  case Nil
  then show ?case by simp
next
  case (Cons c conns)
  show ?case
  proof (cases c)
    case ConnectFailed
    then show ?thesis by (simp add: Cons.IH)
  next
    case (Connected messages ending)
    then show ?thesis by (cases ending) (simp_all add: Cons.IH)
  qed
qed

text \<open>
  C6. The handler sleeps after every attempt that ends in an exception and after no
  other, always for the literal 5 seconds, however many attempts have failed before:
  the delay does not grow. It is not read from the configuration: the handler of a
  monitor built from any configuration sleeps 5 seconds, whatever
  \<^verbatim>\<open>RECONNECT_DELAY\<close> is (\<^verbatim>\<open>config.py\<close> documents that name as the seconds between
  reconnection attempts, and \<^verbatim>\<open>print_stats\<close> does read its \<^verbatim>\<open>STATS_INTERVAL\<close>).
\<close>

theorem reconnect_delay_fixed:
  "sleeps (websocket_handler local_time symbol market_type conns
             \<lparr>the_monitor = BinanceMultiMonitor cfg (MIN_AMOUNT cfg) file writable,
              connects = [], sleeps = []\<rparr>)
     = replicate (length (filter failed conns)) 5"
  by (simp add: sleeps_handler)

text \<open>With \<^verbatim>\<open>RECONNECT_DELAY = 10\<close> the handler still sleeps 5 seconds.\<close>

theorem reconnect_delay_fixed_witness:
  "RECONNECT_DELAY (config_py\<lparr>RECONNECT_DELAY := 10\<rparr>) = 10
   \<and> sleeps (websocket_handler clock0 ''btcusdt'' ''SPOT''
               [ConnectFailed, Connected [] ClosedInOrder, Connected [] Raised]
               \<lparr>the_monitor =
                  BinanceMultiMonitor (config_py\<lparr>RECONNECT_DELAY := 10\<rparr>)
                    (MIN_AMOUNT (config_py\<lparr>RECONNECT_DELAY := 10\<rparr>)) saved_file True,
                connects = [], sleeps = []\<rparr>)
       = [5, 5]"
  using reconnect_delay_fixed
          [of clock0 "''btcusdt''" "''SPOT''"
              "[ConnectFailed, Connected [] ClosedInOrder, Connected [] Raised]"
              "config_py\<lparr>RECONNECT_DELAY := 10\<rparr>" saved_file True]
  by (simp add: replicate_pos)

section \<open>The dispatcher and the other tasks\<close>

lemma deliver_loop_raise:
  "length (subscribed_users m) \<noteq> n0 \<Longrightarrow>
   deliver_loop env message n0 pos acc m = Inl (RuntimeError, m)"
  by (simp add: deliver_loop.simps)

lemma deliver_loop_done:
  "length (subscribed_users m) = n0 \<Longrightarrow> n0 \<le> pos \<Longrightarrow>
   deliver_loop env message n0 pos acc m = Inr (acc, m)"
  by (simp add: deliver_loop.simps)

lemma deliver_loop_step:
  "length (subscribed_users m) = n0 \<Longrightarrow> pos < n0 \<Longrightarrow>
   deliver_loop env message n0 pos acc m =
     deliver_loop env message n0 (Suc pos)
       (tally (respond env (subscribed_users m ! pos)) (subscribed_users m ! pos) acc)
       (meanwhile env pos (m\<lparr>posts := posts m @ [(subscribed_users m ! pos, message)]\<rparr>))"
  by (subst deliver_loop.simps) simp

lemma deliver_loop_size_changed:
  assumes "length (subscribed_users m) = n0" and "pos < n0"
    and "length (subscribed_users
           (meanwhile env pos (m\<lparr>posts := posts m @ [(subscribed_users m ! pos, message)]\<rparr>)))
         \<noteq> n0"
  shows "deliver_loop env message n0 pos acc m =
     Inl (RuntimeError,
          meanwhile env pos (m\<lparr>posts := posts m @ [(subscribed_users m ! pos, message)]\<rparr>))"
  using assms by (simp add: deliver_loop_step deliver_loop_raise)

text \<open>
  A pass that no other task disturbs attempts every recipient registered when it began
  exactly once, in order, and leaves the registry alone while it iterates: the
  recipients that blocked the bot are taken out only after the loop.
\<close>

lemma undisturbed_pass:
  "(\<exists>acc' m'. deliver_loop (undisturbed env) message (length (subscribed_users m)) 0 acc m
                    = Inr (acc', m')
          \<and> subscribed_users m' = subscribed_users m
          \<and> posts m' = posts m @ map (\<lambda>u. (u, message)) (subscribed_users m))
   \<and> (subscribed_users m \<noteq> [] \<and> fst (can_send_notification (admit_time env) m)
     \<longrightarrow> \<not> raised (send_telegram_notification (undisturbed env) message m)
       \<and> posts (state_after (send_telegram_notification (undisturbed env) message m))
           = posts m @ map (\<lambda>u. (u, message)) (subscribed_users m)
       \<and> subscribed_users (state_after (send_telegram_notification (undisturbed env) message m))
           = filter (\<lambda>u. u \<notin> set (blocked env m)) (subscribed_users m))"
proof -
  have b: "\<exists>acc' m'. deliver_loop (undisturbed env) message (length (subscribed_users m)) 0 acc m
                    = Inr (acc', m')
          \<and> subscribed_users m' = subscribed_users m
          \<and> posts m' = posts m @ map (\<lambda>u. (u, message)) (subscribed_users m)"
    by (simp add: deliver_loop_undisturbed)
  have c: "\<not> raised (send_telegram_notification (undisturbed env) message m)
       \<and> posts (state_after (send_telegram_notification (undisturbed env) message m))
           = posts m @ map (\<lambda>u. (u, message)) (subscribed_users m)
       \<and> subscribed_users (state_after (send_telegram_notification (undisturbed env) message m))
           = filter (\<lambda>u. u \<notin> set (blocked env m)) (subscribed_users m)"
    if "subscribed_users m \<noteq> []" and "fst (can_send_notification (admit_time env) m)"
    using that
    by (simp add: send_undisturbed raised_def state_after_def finish_pass_frame
          finish_pass_registry)
  from b c show ?thesis by blast
qed

lemma get_subscribed_users_frame:
  "posts (get_subscribed_users now reply m) = posts m"
  "notifications_sent (get_subscribed_users now reply m) = notifications_sent m"
  "notification_timestamps (get_subscribed_users now reply m) = notification_timestamps m"
  "notification_settings (get_subscribed_users now reply m) = notification_settings m"
  by (auto simp add: get_subscribed_users_def save_subscribers_def Let_def
        split: poll_reply.splits prod.splits)

lemma get_subscribed_users_new:
  "user_id \<notin> set (subscribed_users m) \<Longrightarrow>
   subscribed_users (get_subscribed_users now (Reply 200 True [MessageFrom user_id]) m)
     = subscribed_users m @ [user_id]"
  by (simp add: get_subscribed_users_def save_subscribers_def Let_def)

text \<open>
  C9. The loop of \<^verbatim>\<open>send_telegram_notification\<close> runs over the live set
  \<^verbatim>\<open>self.subscribed_users\<close>, not over a copy of it. With the subscribers 101 and 102
  registered and every delivery answered with status 200, the inbox poller registers
  the sender 103 while the delivery to 101 is awaited: the next step of the iteration
  raises \<^verbatim>\<open>RuntimeError\<close> outside the \<^verbatim>\<open>try\<close> of the loop body, so that 102 is never
  attempted and the delivery to 101 is not accounted for (the counter and the window
  stay as they were). With the same answers and no registration in between, both
  subscribers are attempted and both deliveries are counted.
\<close>

theorem broadcast_aborted_by_registration:
  "subscribed_users monitor0 = [101, 102]
   \<and> fst (can_send_notification (admit_time env_poll) monitor0)
   \<and> respond env_poll 101 = Status 200 \<and> respond env_poll 102 = Status 200
   \<and> raised (send_telegram_notification env_poll ''alert'' monitor0)
   \<and> posts (state_after (send_telegram_notification env_poll ''alert'' monitor0))
       = [(101, ''alert'')]
   \<and> subscribed_users (state_after (send_telegram_notification env_poll ''alert'' monitor0))
       = [101, 102, 103]
   \<and> notifications_sent (state_after (send_telegram_notification env_poll ''alert'' monitor0))
       = 0
   \<and> notification_timestamps (state_after (send_telegram_notification env_poll ''alert'' monitor0))
       = []
   \<and> \<not> raised (send_telegram_notification (undisturbed env_poll) ''alert'' monitor0)
   \<and> posts (state_after (send_telegram_notification (undisturbed env_poll) ''alert'' monitor0))
       = [(101, ''alert''), (102, ''alert'')]
   \<and> notifications_sent
        (state_after (send_telegram_notification (undisturbed env_poll) ''alert'' monitor0))
       = 2"
proof -
  let ?m1 = "monitor0\<lparr>broadcasts := [''alert'']\<rparr>"
  let ?m2 = "get_subscribed_users 100 (Reply 200 True [MessageFrom 103])
               (?m1\<lparr>posts := [(101, ''alert'')]\<rparr>)"
  have a: "fst (can_send_notification (admit_time env_poll) monitor0)"
    using monitor0_admits by (simp add: env_poll_def)
  have r: "respond env_poll u = Status 200" for u by (simp add: env_poll_def)
  have cs: "can_send_notification 100 ?m1 = (True, ?m1)"
    by (simp add: can_send_notification_def Let_def monitor0_fields max_per_minute_def
          monitor0_def BinanceMultiMonitor_def load_subscribers_def saved_file_def config_py_def)
  have mw: "meanwhile env_poll 0 (?m1\<lparr>posts := posts ?m1 @ [(subscribed_users ?m1 ! 0, ''alert'')]\<rparr>)
      = ?m2"
    by (simp add: env_poll_def monitor0_fields)
  have us: "subscribed_users ?m2 = [101, 102, 103]"
    by (simp add: get_subscribed_users_new monitor0_fields)
  have at: "admit_time env_poll = 100" by (simp add: env_poll_def)
  have ne: "subscribed_users monitor0 \<noteq> []" by (simp add: monitor0_fields)
  have l2: "length (subscribed_users monitor0) = 2" by (simp add: monitor0_fields)
  have loop: "deliver_loop env_poll ''alert'' (length (subscribed_users monitor0)) 0 (0, []) ?m1
      = Inl (RuntimeError, ?m2)"
    using deliver_loop_size_changed [of ?m1 2 0 env_poll "''alert''" "(0, [])"]
    unfolding mw l2 by (simp add: monitor0_fields us)
  have s: "send_telegram_notification env_poll ''alert'' monitor0 = Inl (RuntimeError, ?m2)"
    using cs loop ne
    by (simp add: send_telegram_notification_def Let_def at monitor0_fields(6))
  have d: "delivered env_poll monitor0 = [101, 102]" "blocked env_poll monitor0 = []"
    by (simp_all add: delivered_def blocked_def r monitor0_fields)
  have disturbed: "raised (send_telegram_notification env_poll ''alert'' monitor0)
   \<and> posts (state_after (send_telegram_notification env_poll ''alert'' monitor0))
       = [(101, ''alert'')]
   \<and> subscribed_users (state_after (send_telegram_notification env_poll ''alert'' monitor0))
       = [101, 102, 103]
   \<and> notifications_sent (state_after (send_telegram_notification env_poll ''alert'' monitor0))
       = 0
   \<and> notification_timestamps (state_after (send_telegram_notification env_poll ''alert'' monitor0))
       = []"
    unfolding s
    by (simp add: raised_def state_after_def us get_subscribed_users_frame monitor0_fields)
  have alone: "\<not> raised (send_telegram_notification (undisturbed env_poll) ''alert'' monitor0)
   \<and> posts (state_after (send_telegram_notification (undisturbed env_poll) ''alert'' monitor0))
       = [(101, ''alert''), (102, ''alert'')]
   \<and> notifications_sent
        (state_after (send_telegram_notification (undisturbed env_poll) ''alert'' monitor0))
       = 2"
    using a ne
    by (simp add: send_undisturbed raised_def state_after_def finish_pass_frame
          finish_pass_accounting d monitor0_fields)
  from a r [of 101] r [of 102] disturbed alone show ?thesis
    by (simp add: monitor0_fields(1))
qed

section \<open>The bound on the window\<close>

lemma deliver_loop_window:
  "leaves_window env \<Longrightarrow>
   (case deliver_loop env message n0 pos acc m of
      Inl x \<Rightarrow> notification_timestamps (snd x) = notification_timestamps m
               \<and> notification_settings (snd x) = notification_settings m
    | Inr y \<Rightarrow> notification_timestamps (snd y) = notification_timestamps m
               \<and> notification_settings (snd y) = notification_settings m)"
proof (induction env message n0 pos acc m rule: deliver_loop.induct)
  case (1 env message n0 pos acc m)
  show ?case
  proof (cases "length (subscribed_users m) \<noteq> n0")
    case True
    then show ?thesis by (simp add: deliver_loop_raise)
  next
    case False
    then have len: "length (subscribed_users m) = n0" by simp
    show ?thesis
    proof (cases "n0 \<le> pos")
      case True
      then show ?thesis using len by (simp add: deliver_loop_done)
    next
      case False
      then have lt: "pos < n0" by simp
      let ?m1 = "m\<lparr>posts := posts m @ [(subscribed_users m ! pos, message)]\<rparr>"
      have w: "notification_timestamps (meanwhile env pos ?m1) = notification_timestamps m"
        "notification_settings (meanwhile env pos ?m1) = notification_settings m"
        using "1.prems" by (simp_all add: leaves_window_def)
      show ?thesis
        using "1.IH" [OF _ False "1.prems"] len lt w
        by (auto simp add: deliver_loop_step split: sum.splits)
    qed
  qed
qed

lemma window_bounded_cong:
  "notification_timestamps m' = notification_timestamps m \<Longrightarrow>
   notification_settings m' = notification_settings m \<Longrightarrow>
   window_bounded m' = window_bounded m"
  by (simp add: window_bounded_def max_per_minute_def)

lemma finish_pass_settings:
  "notification_settings (finish_pass env acc m) = notification_settings m"
  by (cases acc) (simp add: finish_pass_def save_subscribers_def Let_def)

lemma send_window_bounded:
  assumes "window_bounded m" and "leaves_window env"
  shows "window_bounded (state_after (send_telegram_notification env message m))"
proof -
  let ?m0 = "m\<lparr>broadcasts := broadcasts m @ [message]\<rparr>"
  let ?m1 = "?m0\<lparr>notification_timestamps := pruned (admit_time env) m\<rparr>"
  have cs: "can_send_notification (admit_time env) ?m0 =
      (fst (can_send_notification (admit_time env) m), ?m1)"
    by (simp add: can_send_notification_def Let_def max_per_minute_def pruned_def)
  have pl: "length (pruned (admit_time env) m) \<le> length (notification_timestamps m)"
    by (simp add: pruned_def)
  have b1: "window_bounded ?m1"
    using assms(1) pl by (simp add: window_bounded_def max_per_minute_def)
  show ?thesis
  proof (cases "subscribed_users m = []")
    case True
    then show ?thesis
      using assms(1)
      by (simp add: send_telegram_notification_def Let_def state_after_def window_bounded_def
            max_per_minute_def)
  next
    case False
    note ne = this
    show ?thesis
    proof (cases "fst (can_send_notification (admit_time env) m)")
      case False
      then show ?thesis
        using ne b1 by (simp add: send_telegram_notification_def Let_def cs state_after_def)
    next
      case True
      then have room: "int (length (pruned (admit_time env) m)) < max_per_minute m"
        by (simp add: can_send_fst)
      let ?r = "deliver_loop env message (length (subscribed_users m)) 0 (0, []) ?m1"
      note w = deliver_loop_window
                 [OF assms(2), where message = message and ?n0.0 = "length (subscribed_users m)"
                    and pos = 0 and acc = "(0, [])" and m = ?m1]
      show ?thesis
      proof (cases ?r)
        case (Inl x)
        then have "window_bounded (snd x) = window_bounded ?m1"
          using w by (intro window_bounded_cong) simp_all
        then show ?thesis
          using True ne b1 Inl
          by (simp add: send_telegram_notification_def Let_def cs state_after_def)
      next
        case (Inr y)
        obtain acc m2 where y: "y = (acc, m2)" by (cases y)
        obtain sc fu where acc: "acc = (sc, fu)" by (cases acc)
        have t: "notification_timestamps m2 = pruned (admit_time env) m"
          and st: "notification_settings m2 = notification_settings m"
          using w Inr y by simp_all
        have "int (length (notification_timestamps (finish_pass env (sc, fu) m2)))
            \<le> max_per_minute m"
          using room t by (simp add: finish_pass_accounting)
        then have "window_bounded (finish_pass env acc m2)"
          using st acc by (simp add: window_bounded_def max_per_minute_def finish_pass_settings)
        then show ?thesis
          using True ne Inr y
          by (simp add: send_telegram_notification_def Let_def cs state_after_def)
      qed
    qed
  qed
qed

lemma leaves_window_undisturbed: "leaves_window (undisturbed env)"
  by (simp add: leaves_window_def undisturbed_def)

lemma count_trade_window:
  "notification_timestamps (count_trade market_type symbol m) = notification_timestamps m"
  "notification_settings (count_trade market_type symbol m) = notification_settings m"
  by (simp_all add: count_trade_def Let_def)

lemma handle_trade_window_bounded:
  assumes "window_bounded m" and "leaves_window env"
  shows "window_bounded (handle_trade local_time env trade market_type symbol m)"
proof -
  have c: "window_bounded (count_trade market_type symbol m)"
    using assms(1) window_bounded_cong [OF count_trade_window] by simp
  have s: "window_bounded
      (state_after (send_telegram_notification env alert (count_trade market_type symbol m)))"
    for alert
    using c assms(2) by (rule send_window_bounded)
  show ?thesis
    using assms(1) c s
    by (simp add: handle_trade_def Let_def split: raw_message.splits sum.splits)
qed

lemma registry_window_bounded:
  assumes "window_bounded m"
  shows "window_bounded (add_subscriber now user_id m)"
    and "window_bounded (get_subscribed_users now reply m)"
    and "window_bounded (load_subscribers m)"
    and "window_bounded (save_subscribers now m)"
proof -
  show "window_bounded (add_subscriber now user_id m)"
    using assms
    by (simp add: add_subscriber_def save_subscribers_def Let_def window_bounded_def
          max_per_minute_def)
  show "window_bounded (get_subscribed_users now reply m)"
    using assms window_bounded_cong [OF get_subscribed_users_frame(3,4)] by simp
  show "window_bounded (load_subscribers m)"
    using assms
    by (simp add: load_subscribers_def window_bounded_def max_per_minute_def
          split: file_content.splits)
  show "window_bounded (save_subscribers now m)"
    using assms by (simp add: save_subscribers_def Let_def window_bounded_def max_per_minute_def)
qed

lemma can_send_window_bounded:
  "window_bounded m \<Longrightarrow> window_bounded (snd (can_send_notification now m))"
proof -
  assume b: "window_bounded m"
  have "length (pruned now m) \<le> length (notification_timestamps m)" by (simp add: pruned_def)
  with b show ?thesis by (simp add: can_send_snd window_bounded_def max_per_minute_def)
qed

lemma init_window_bounded:
  "0 \<le> max_per_minute (BinanceMultiMonitor cfg amount file writable) \<Longrightarrow>
   window_bounded (BinanceMultiMonitor cfg amount file writable)"
  by (simp add: window_bounded_def BinanceMultiMonitor_def load_subscribers_def max_per_minute_def
        split: file_content.splits)

text \<open>
  What does hold. The window is empty when the monitor is built. The admission check,
  the registry operations and the poll keep the window within the maximum; so does a
  broadcast (\<^verbatim>\<open>send_telegram_notification\<close>, also inside \<^verbatim>\<open>handle_trade\<close>, and
  also when it is aborted) during which the other tasks leave the window and the
  settings alone.
\<close>

lemma window_bounded_undisturbed:
  "(window_bounded m \<longrightarrow> window_bounded (snd (can_send_notification now m)))
   \<and> (window_bounded m \<and> leaves_window env
        \<longrightarrow> window_bounded (state_after (send_telegram_notification env message m)))
   \<and> (window_bounded m \<and> leaves_window env
        \<longrightarrow> window_bounded (handle_trade local_time env trade market_type symbol m))
   \<and> (window_bounded m \<longrightarrow> window_bounded (add_subscriber now user_id m))
   \<and> (window_bounded m \<longrightarrow> window_bounded (get_subscribed_users now reply m))
   \<and> (window_bounded m \<longrightarrow> window_bounded (load_subscribers m))
   \<and> (window_bounded m \<longrightarrow> window_bounded (save_subscribers now m))
   \<and> (0 \<le> max_per_minute (BinanceMultiMonitor cfg amount stored writable)
        \<longrightarrow> window_bounded (BinanceMultiMonitor cfg amount stored writable))
   \<and> leaves_window (undisturbed env)"
proof (intro conjI impI)
  show "window_bounded (snd (can_send_notification now m))" if "window_bounded m"
    using that by (rule can_send_window_bounded)
  show "window_bounded (state_after (send_telegram_notification env message m))"
    if "window_bounded m \<and> leaves_window env"
    using that by (simp add: send_window_bounded)
  show "window_bounded (handle_trade local_time env trade market_type symbol m)"
    if "window_bounded m \<and> leaves_window env"
    using that by (simp add: handle_trade_window_bounded)
  show "window_bounded (add_subscriber now user_id m)" if "window_bounded m"
    using that by (rule registry_window_bounded)
  show "window_bounded (get_subscribed_users now reply m)" if "window_bounded m"
    using that by (rule registry_window_bounded)
  show "window_bounded (load_subscribers m)" if "window_bounded m"
    using that by (rule registry_window_bounded)
  show "window_bounded (save_subscribers now m)" if "window_bounded m"
    using that by (rule registry_window_bounded)
  show "window_bounded (BinanceMultiMonitor cfg amount stored writable)"
    if "0 \<le> max_per_minute (BinanceMultiMonitor cfg amount stored writable)"
    using that by (rule init_window_bounded)
  show "leaves_window (undisturbed env)" by (rule leaves_window_undisturbed)
qed

lemma monitor1_fields:
  "subscribed_users monitor1 = [101, 102]"
  "notification_timestamps monitor1 = []"
  "max_per_minute monitor1 = 1"
  "posts monitor1 = []"
  "broadcasts monitor1 = []"
  by (simp_all add: monitor1_def monitor0_fields max_per_minute_def)

lemma inner_pass:
  assumes "subscribed_users m = [101, 102]" and "notification_timestamps m = []"
    and "max_per_minute m = 1"
  shows "subscribed_users (state_after (send_telegram_notification env_ok ''other'' m))
           = [101, 102]"
    and "notification_timestamps (state_after (send_telegram_notification env_ok ''other'' m))
           = [102]"
    and "notification_settings (state_after (send_telegram_notification env_ok ''other'' m))
           = notification_settings m"
    and "posts (state_after (send_telegram_notification env_ok ''other'' m))
           = posts m @ [(101, ''other''), (102, ''other'')]"
    and "broadcasts (state_after (send_telegram_notification env_ok ''other'' m))
           = broadcasts m @ [''other'']"
proof -
  have k: "undisturbed env_ok = env_ok" by (simp add: undisturbed_def env_ok_def)
  have a: "fst (can_send_notification (admit_time env_ok) m)"
    using assms by (simp add: can_send_fst pruned_def)
  have d: "delivered env_ok m = [101, 102]" "blocked env_ok m = []"
    using assms(1) by (simp_all add: delivered_def blocked_def env_ok_def)
  have tm: "sent_time env_ok = 102" by (simp add: env_ok_def)
  note s = send_undisturbed [of env_ok "''other''" m, unfolded k]
  show "subscribed_users (state_after (send_telegram_notification env_ok ''other'' m))
           = [101, 102]"
    using a assms(1) by (simp add: s state_after_def d finish_pass_registry)
  show "notification_timestamps (state_after (send_telegram_notification env_ok ''other'' m))
           = [102]"
    using a assms by (simp add: s state_after_def d finish_pass_accounting pruned_def tm)
  show "notification_settings (state_after (send_telegram_notification env_ok ''other'' m))
           = notification_settings m"
    using a assms(1) by (simp add: s state_after_def d finish_pass_settings)
  show "posts (state_after (send_telegram_notification env_ok ''other'' m))
           = posts m @ [(101, ''other''), (102, ''other'')]"
    using a assms(1) by (simp add: s state_after_def d finish_pass_frame)
  show "broadcasts (state_after (send_telegram_notification env_ok ''other'' m))
           = broadcasts m @ [''other'']"
    using a assms(1) by (simp add: s state_after_def d finish_pass_frame)
qed

text \<open>
  C10. The limit of \<^verbatim>\<open>max_notifications_per_minute\<close> is checked when a broadcast
  begins and the timestamp is appended when it ends, with the deliveries awaited in
  between. With a maximum of one notification per minute and an empty window, the
  handler of another feed begins a broadcast while the first awaits its delivery to
  101: it is admitted as well, the first not having appended its timestamp yet. Both
  alerts go to both subscribers within the same minute and the window ends with two
  entries, above the maximum of one.
\<close>

theorem overlapping_broadcasts_exceed_limit:
  "max_per_minute monitor1 = 1
   \<and> notification_timestamps monitor1 = []
   \<and> window_bounded monitor1
   \<and> \<not> raised (send_telegram_notification env_overlap ''alert'' monitor1)
   \<and> broadcasts (state_after (send_telegram_notification env_overlap ''alert'' monitor1))
       = [''alert'', ''other'']
   \<and> posts (state_after (send_telegram_notification env_overlap ''alert'' monitor1))
       = [(101, ''alert''), (101, ''other''), (102, ''other''), (102, ''alert'')]
   \<and> notification_timestamps (state_after (send_telegram_notification env_overlap ''alert'' monitor1))
       = [102, 104]
   \<and> max_per_minute (state_after (send_telegram_notification env_overlap ''alert'' monitor1)) = 1
   \<and> \<not> window_bounded (state_after (send_telegram_notification env_overlap ''alert'' monitor1))"
proof -
  let ?m1 = "monitor1\<lparr>broadcasts := [''alert'']\<rparr>"
  let ?p1 = "monitor1\<lparr>broadcasts := [''alert''], posts := [(101, ''alert'')]\<rparr>"
  let ?mI = "state_after (send_telegram_notification env_ok ''other'' ?p1)"
  let ?p2 = "?mI\<lparr>posts := posts ?mI @ [(102, ''alert'')]\<rparr>"
  have b: "window_bounded monitor1"
    by (simp add: window_bounded_def monitor1_fields)
  have cs: "can_send_notification 100 ?m1 = (True, ?m1)"
    using monitor1_fields(2,3)
    by (simp add: can_send_notification_def Let_def max_per_minute_def)
  have i: "subscribed_users ?mI = [101, 102]" "notification_timestamps ?mI = [102]"
    "notification_settings ?mI = notification_settings monitor1"
    "posts ?mI = [(101, ''alert''), (101, ''other''), (102, ''other'')]"
    "broadcasts ?mI = [''alert'', ''other'']"
    using inner_pass [of ?p1] monitor1_fields(3)
    by (simp_all add: monitor1_fields max_per_minute_def)
  have mw0: "meanwhile env_overlap 0 x = state_after (send_telegram_notification env_ok ''other'' x)"
    for x by (simp add: env_overlap_def)
  have mw1: "meanwhile env_overlap (Suc 0) x = x" for x by (simp add: env_overlap_def)
  have r: "respond env_overlap u = Status 200" for u by (simp add: env_overlap_def)
  have s0: "deliver_loop env_overlap ''alert'' 2 0 (0, []) ?m1 =
      deliver_loop env_overlap ''alert'' 2 (Suc 0) (Suc 0, []) ?mI"
  proof -
    have "deliver_loop env_overlap ''alert'' 2 0 (0, []) ?m1 =
      deliver_loop env_overlap ''alert'' 2 (Suc 0)
        (tally (respond env_overlap (subscribed_users ?m1 ! 0)) (subscribed_users ?m1 ! 0) (0, []))
        (meanwhile env_overlap 0
           (?m1\<lparr>posts := posts ?m1 @ [(subscribed_users ?m1 ! 0, ''alert'')]\<rparr>))"
      by (rule deliver_loop_step) (simp_all add: monitor1_fields)
    then show ?thesis by (simp add: r mw0 monitor1_fields)
  qed
  have s1: "deliver_loop env_overlap ''alert'' 2 (Suc 0) (Suc 0, []) ?mI =
      deliver_loop env_overlap ''alert'' 2 (Suc (Suc 0)) (Suc (Suc 0), []) ?p2"
  proof -
    have "deliver_loop env_overlap ''alert'' 2 (Suc 0) (Suc 0, []) ?mI =
      deliver_loop env_overlap ''alert'' 2 (Suc (Suc 0))
        (tally (respond env_overlap (subscribed_users ?mI ! Suc 0))
           (subscribed_users ?mI ! Suc 0) (Suc 0, []))
        (meanwhile env_overlap (Suc 0)
           (?mI\<lparr>posts := posts ?mI @ [(subscribed_users ?mI ! Suc 0, ''alert'')]\<rparr>))"
      by (rule deliver_loop_step) (simp_all add: i)
    then show ?thesis by (simp add: r mw1 i)
  qed
  have s2: "deliver_loop env_overlap ''alert'' 2 (Suc (Suc 0)) (Suc (Suc 0), []) ?p2
      = Inr ((Suc (Suc 0), []), ?p2)"
    by (rule deliver_loop_done) (simp_all add: i)
  have l2: "length (subscribed_users monitor1) = 2" by (simp add: monitor1_fields)
  have ne: "subscribed_users monitor1 \<noteq> []" by (simp add: monitor1_fields)
  have at: "admit_time env_overlap = 100" "sent_time env_overlap = 104"
    by (simp_all add: env_overlap_def)
  have lp: "deliver_loop env_overlap ''alert'' (length (subscribed_users monitor1)) 0 (0, []) ?m1
      = Inr ((Suc (Suc 0), []), ?p2)"
    unfolding l2 using s0 s1 s2 by (rule trans [OF trans])
  have s: "send_telegram_notification env_overlap ''alert'' monitor1 =
      Inr (finish_pass env_overlap (Suc (Suc 0), []) ?p2)"
    using cs ne lp
    by (simp add: send_telegram_notification_def Let_def at monitor1_fields(5))
  have t: "notification_timestamps (finish_pass env_overlap (Suc (Suc 0), []) ?p2) = [102, 104]"
    by (simp add: finish_pass_accounting i at)
  have x: "max_per_minute (finish_pass env_overlap (Suc (Suc 0), []) ?p2) = 1"
    using monitor1_fields(3) by (simp add: max_per_minute_def finish_pass_settings i)
  have y: "broadcasts (finish_pass env_overlap (Suc (Suc 0), []) ?p2) = [''alert'', ''other'']"
    "posts (finish_pass env_overlap (Suc (Suc 0), []) ?p2)
       = [(101, ''alert''), (101, ''other''), (102, ''other''), (102, ''alert'')]"
    by (simp_all add: finish_pass_frame i)
  show ?thesis
    using b t x y monitor1_fields(2,3) unfolding s
    by (simp add: raised_def state_after_def window_bounded_def)
qed

end

